theory Spec2Isabelle
  imports Complex_Main "HOL-Library.Word"
begin

unbundle bit_operations_syntax

section \<open>Go values and library functions used by the generator and the validator\<close>

text \<open>
  A Go \<open>string\<close> is a sequence of bytes; \<open>char\<close> is a byte, so \<open>string\<close> models it
  directly and \<open>[]byte(s)\<close> is \<open>bytes_of s\<close>. Go's \<open>int\<close> and \<open>int64\<close> are 64-bit
  two's complement words (\<open>int\<close> as on the 64-bit platforms).
\<close>

type_synonym byte = "8 word"

definition bytes_of :: "string \<Rightarrow> byte list" where
  "bytes_of s = map of_char s"

subsection \<open>Package strings\<close>

definition HasPrefix :: "string \<Rightarrow> string \<Rightarrow> bool" where
  "HasPrefix s p = (take (length p) s = p)"

definition HasSuffix :: "string \<Rightarrow> string \<Rightarrow> bool" where
  "HasSuffix s p = (length p \<le> length s \<and> drop (length s - length p) s = p)"

fun Contains :: "string \<Rightarrow> string \<Rightarrow> bool" where
  "Contains [] substr = (substr = [])"
| "Contains (c # s) substr = (HasPrefix (c # s) substr \<or> Contains s substr)"

text \<open>
  \<open>strings.Split(s, sep)\<close> for a non-empty separator: the pieces between the
  non-overlapping occurrences of \<open>sep\<close>, found from the left. Every call in the
  source passes a non-empty literal separator; for the empty separator (where Go
  explodes the string into its UTF-8 sequences) this function returns \<open>[s]\<close>.
\<close>

function splitAcc :: "string \<Rightarrow> string \<Rightarrow> string \<Rightarrow> string list" where
  "splitAcc [] sep cur = [cur]"
| "splitAcc (c # s) sep cur =
     (if sep \<noteq> [] \<and> HasPrefix (c # s) sep
      then cur # splitAcc (drop (length sep) (c # s)) sep []
      else splitAcc s sep (cur @ [c]))"
  by pat_completeness auto
termination
  by (relation "measure (\<lambda>(s, sep, cur). length s)") auto

definition Split :: "string \<Rightarrow> string \<Rightarrow> string list" where
  "Split s sep = splitAcc s sep []"

text \<open>
  \<open>strings.TrimSpace\<close> removes leading and trailing runes with \<open>unicode.IsSpace\<close>.
  \<open>space_seqs\<close> lists their UTF-8 encodings: tab, LF, VT, FF, CR, space, U+0085,
  U+00A0, U+1680, U+2000 to U+200A, U+2028, U+2029, U+202F, U+205F, U+3000.
\<close>

definition space_seqs :: "string list" where
  "space_seqs =
     [[CHR 0x09], [CHR 0x0A], [CHR 0x0B], [CHR 0x0C], [CHR 0x0D], [CHR 0x20],
      [CHR 0xC2, CHR 0x85], [CHR 0xC2, CHR 0xA0], [CHR 0xE1, CHR 0x9A, CHR 0x80],
      [CHR 0xE2, CHR 0x80, CHR 0x80], [CHR 0xE2, CHR 0x80, CHR 0x81],
      [CHR 0xE2, CHR 0x80, CHR 0x82], [CHR 0xE2, CHR 0x80, CHR 0x83],
      [CHR 0xE2, CHR 0x80, CHR 0x84], [CHR 0xE2, CHR 0x80, CHR 0x85],
      [CHR 0xE2, CHR 0x80, CHR 0x86], [CHR 0xE2, CHR 0x80, CHR 0x87],
      [CHR 0xE2, CHR 0x80, CHR 0x88], [CHR 0xE2, CHR 0x80, CHR 0x89],
      [CHR 0xE2, CHR 0x80, CHR 0x8A], [CHR 0xE2, CHR 0x80, CHR 0xA8],
      [CHR 0xE2, CHR 0x80, CHR 0xA9], [CHR 0xE2, CHR 0x80, CHR 0xAF],
      [CHR 0xE2, CHR 0x81, CHR 0x9F], [CHR 0xE3, CHR 0x80, CHR 0x80]]"

definition leading_space :: "string \<Rightarrow> nat" where
  "leading_space s = (case find (HasPrefix s) space_seqs of None \<Rightarrow> 0 | Some w \<Rightarrow> length w)"

definition trailing_space :: "string \<Rightarrow> nat" where
  "trailing_space s = (case find (HasSuffix s) space_seqs of None \<Rightarrow> 0 | Some w \<Rightarrow> length w)"

function TrimLeft :: "string \<Rightarrow> string" where
  "TrimLeft s = (if s \<noteq> [] \<and> 0 < leading_space s then TrimLeft (drop (leading_space s) s) else s)"
  by pat_completeness auto
termination
  by (relation "measure length") auto

function TrimRight :: "string \<Rightarrow> string" where
  "TrimRight s =
     (if s \<noteq> [] \<and> 0 < trailing_space s then TrimRight (take (length s - trailing_space s) s) else s)"
  by pat_completeness auto
termination
  by (relation "measure length") auto

declare TrimLeft.simps [simp del] TrimRight.simps [simp del]

definition TrimSpace :: "string \<Rightarrow> string" where
  "TrimSpace s = TrimRight (TrimLeft s)"

fun Join :: "string list \<Rightarrow> string \<Rightarrow> string" where
  "Join [] sep = []"
| "Join [x] sep = x"
| "Join (x # y # xs) sep = x @ sep @ Join (y # xs) sep"

text \<open>Go compares strings bytewise, lexicographically.\<close>

fun string_less :: "string \<Rightarrow> string \<Rightarrow> bool" where
  "string_less [] [] = False"
| "string_less [] (d # t) = True"
| "string_less (c # s) [] = False"
| "string_less (c # s) (d # t) =
     ((of_char c :: nat) < of_char d \<or> (c = d \<and> string_less s t))"

subsection \<open>Package hash/fnv, 64-bit FNV-1a\<close>

definition offset64 :: "64 word" where
  "offset64 = 14695981039346656037"

definition prime64 :: "64 word" where
  "prime64 = 1099511628211"

definition fnv_New64a :: "64 word" where
  "fnv_New64a = offset64"

text \<open>\<open>Write\<close> returns the new state and the error, which hash/fnv never sets.\<close>

definition fnv_Write :: "64 word \<Rightarrow> byte list \<Rightarrow> 64 word \<times> string option" where
  "fnv_Write s data = (foldl (\<lambda>hash c. (hash XOR ucast c) * prime64) s data, None)"

definition fnv_Sum64 :: "64 word \<Rightarrow> 64 word" where
  "fnv_Sum64 s = s"

section \<open>Seed derivation\<close>

text \<open>
  The generator holds the base seed (its other field, a random source seeded with it, is
  never read). In \<open>deriveSeed\<close>, \<open>recordIndex >> k\<close> on a signed \<open>int\<close> is the
  arithmetic shift and \<open>byte(x)\<close> keeps the low eight bits.
\<close>

record DeterministicGenerator =
  baseSeed :: "64 word"

definition deriveSeed :: "DeterministicGenerator \<Rightarrow> string \<Rightarrow> 64 word \<Rightarrow> 64 word" where
  "deriveSeed g path recordIndex =
     (case fnv_Write fnv_New64a (bytes_of path) of (h1, err1) \<Rightarrow>
        if err1 \<noteq> None then 0
        else case fnv_Write h1 [ucast recordIndex, ucast (signed_drop_bit 8 recordIndex),
                                ucast (signed_drop_bit 16 recordIndex),
                                ucast (signed_drop_bit 24 recordIndex)] of (h2, err2) \<Rightarrow>
          if err2 \<noteq> None then 0
          else let pathHash = fnv_Sum64 h2 AND 0x7FFFFFFFFFFFFFFF
               in baseSeed g XOR pathHash)"

text \<open>
  The reference definition in the words of the specification: the 64-bit FNV-1a hash of
  the bytes of the path followed by the little-endian four-byte encoding of the record
  index, the sign bit masked off, XORed with the base seed.
\<close>

definition fnv1a_64 :: "byte list \<Rightarrow> 64 word" where
  "fnv1a_64 bs = fold (\<lambda>b h. (h XOR ucast b) * prime64) bs offset64"

definition le_bytes32 :: "32 word \<Rightarrow> byte list" where
  "le_bytes32 w = map (\<lambda>k. ucast (drop_bit (8 * k) w)) [0..<4]"

definition deriveSeed_ref :: "64 word \<Rightarrow> string \<Rightarrow> 64 word \<Rightarrow> 64 word" where
  "deriveSeed_ref seed path recordIndex =
     take_bit 63 (fnv1a_64 (bytes_of path @ le_bytes32 (ucast recordIndex))) XOR seed"

section \<open>float64 and dynamically typed values\<close>

text \<open>
  A float64 is a finite rational, an infinity or NaN; comparisons are exact, as IEEE 754
  defines them (every comparison with NaN is false). The zero's sign is not
  distinguished. What depends on the binary format is a parameter, collected in
  \<open>float_env\<close>: the rounding of an exact result to float64 and to float32
  (\<open>rnd\<close>, \<open>rnd32\<close>), \<open>strconv.ParseFloat\<close>, the \<open>%f\<close>
  verb of package fmt, \<open>math.Pow\<close> and the result of converting a value that does not
  fit to \<open>int64\<close>, which Go leaves to the implementation.
\<close>

datatype float64 = Finite rat | PosInf | NegInf | NaN

record float_env =
  rnd :: "rat \<Rightarrow> float64"
  rnd32 :: "rat \<Rightarrow> float64"
  parse_float :: "string \<Rightarrow> float64 option"
  fmt_f :: "float64 \<Rightarrow> string"
  math_Pow :: "float64 \<Rightarrow> float64 \<Rightarrow> float64"
  conv_oor :: "float64 \<Rightarrow> 64 word"

fun flt :: "float64 \<Rightarrow> float64 \<Rightarrow> bool" where
  "flt NaN b = False"
| "flt a NaN = False"
| "flt (Finite a) (Finite b) = (a < b)"
| "flt (Finite a) PosInf = True"
| "flt (Finite a) NegInf = False"
| "flt PosInf b = False"
| "flt NegInf NegInf = False"
| "flt NegInf b = True"

definition fle :: "float64 \<Rightarrow> float64 \<Rightarrow> bool" where
  "fle a b = (flt a b \<or> (a = b \<and> a \<noteq> NaN))"

fun fneg :: "float64 \<Rightarrow> float64" where
  "fneg (Finite a) = Finite (- a)"
| "fneg PosInf = NegInf"
| "fneg NegInf = PosInf"
| "fneg NaN = NaN"

fun fadd :: "float_env \<Rightarrow> float64 \<Rightarrow> float64 \<Rightarrow> float64" where
  "fadd fe NaN b = NaN"
| "fadd fe a NaN = NaN"
| "fadd fe (Finite a) (Finite b) = rnd fe (a + b)"
| "fadd fe PosInf NegInf = NaN"
| "fadd fe NegInf PosInf = NaN"
| "fadd fe PosInf b = PosInf"
| "fadd fe NegInf b = NegInf"
| "fadd fe a PosInf = PosInf"
| "fadd fe a NegInf = NegInf"

definition fsub :: "float_env \<Rightarrow> float64 \<Rightarrow> float64 \<Rightarrow> float64" where
  "fsub fe a b = fadd fe a (fneg b)"

fun fsign :: "float64 \<Rightarrow> int" where
  "fsign (Finite a) = sgn (if a < 0 then - 1 else if a = 0 then 0 else 1)"
| "fsign PosInf = 1"
| "fsign NegInf = - 1"
| "fsign NaN = 0"

definition inf_of_sign :: "int \<Rightarrow> float64" where
  "inf_of_sign s = (if s = 0 then NaN else if 0 < s then PosInf else NegInf)"

fun fmul :: "float_env \<Rightarrow> float64 \<Rightarrow> float64 \<Rightarrow> float64" where
  "fmul fe NaN b = NaN"
| "fmul fe a NaN = NaN"
| "fmul fe (Finite a) (Finite b) = rnd fe (a * b)"
| "fmul fe a b = inf_of_sign (fsign a * fsign b)"

text \<open>Division, with a zero divisor read as +0.\<close>

fun fdiv :: "float_env \<Rightarrow> float64 \<Rightarrow> float64 \<Rightarrow> float64" where
  "fdiv fe NaN b = NaN"
| "fdiv fe a NaN = NaN"
| "fdiv fe (Finite a) (Finite b) = (if b = 0 then inf_of_sign (fsign (Finite a)) else rnd fe (a / b))"
| "fdiv fe (Finite a) b = Finite 0"
| "fdiv fe a (Finite b) = inf_of_sign (fsign a * (if b < 0 then - 1 else 1))"
| "fdiv fe a b = NaN"

text \<open>\<open>math.Round\<close>: to the nearest integer, halves away from zero.\<close>

definition round_half_away :: "rat \<Rightarrow> int" where
  "round_half_away q = (if 0 \<le> q then \<lfloor>q + 1 / 2\<rfloor> else - \<lfloor>- q + 1 / 2\<rfloor>)"

fun math_Round :: "float64 \<Rightarrow> float64" where
  "math_Round (Finite a) = Finite (of_int (round_half_away a))"
| "math_Round a = a"

text \<open>\<open>int64(x)\<close> truncates towards zero; \<open>float64(i)\<close> rounds the integer.\<close>

definition trunc_rat :: "rat \<Rightarrow> int" where
  "trunc_rat q = (if 0 \<le> q then \<lfloor>q\<rfloor> else - \<lfloor>- q\<rfloor>)"

definition to_int64 :: "float_env \<Rightarrow> float64 \<Rightarrow> 64 word" where
  "to_int64 fe x =
     (case x of
        Finite q \<Rightarrow>
          if - (2 ^ 63) \<le> trunc_rat q \<and> trunc_rat q < 2 ^ 63 then word_of_int (trunc_rat q)
          else conv_oor fe x
      | _ \<Rightarrow> conv_oor fe x)"

definition of_int64 :: "float_env \<Rightarrow> 64 word \<Rightarrow> float64" where
  "of_int64 fe i = rnd fe (of_int (sint i))"

text \<open>
  A value of type \<open>interface{}\<close>: nil, or a value of one of the dynamic types that the
  generator produces, that JSON decoding produces or that the validator's type switches
  name. Slices and maps stand for every type the switches leave to their default branch.
\<close>

datatype val =
    VNil
  | VBool bool
  | VString string
  | VInt "64 word"
  | VInt64 "64 word"
  | VFloat64 float64
  | VSlice "val list"
  | VMap "string \<Rightarrow> val option"

type_synonym gomap = "string \<Rightarrow> val option"

section \<open>Cross-field rules and the validator\<close>

text \<open>
  Modelled from the spec: the \<open>Constraint\<close> field of \<open>CrossFieldRule\<close> (the spec's
  constraintExpression, a string used by the comparison rule) is read by the validator
  but missing from the struct declaration in pkg/schema/parser.go.
\<close>

record PatchRule =
  Strategy :: string
  Target :: string
  Value :: val
  Params :: gomap

record CrossFieldRule =
  Name :: string
  Description :: string
  Fields :: "string list"
  Rule :: string
  Severity :: string
  Constraint :: string
  Patch :: "PatchRule option"

text \<open>The validator's rule list; \<open>Parser.Validate\<close>, its other field's only use, returns nil.\<close>

record Validator =
  rules :: "CrossFieldRule list"

definition parser_Validate :: "gomap \<Rightarrow> string option" where
  "parser_Validate data = None"

definition quote :: string where
  "quote = [CHR 0x27]"

definition getNumericValue :: "float_env \<Rightarrow> gomap \<Rightarrow> string \<Rightarrow> float64" where
  "getNumericValue fe data field =
     (case data field of
        Some (VFloat64 v) \<Rightarrow> v
      | Some (VInt v) \<Rightarrow> of_int64 fe v
      | Some (VInt64 v) \<Rightarrow> of_int64 fe v
      | Some (VString v) \<Rightarrow> (case parse_float fe v of Some f \<Rightarrow> f | None \<Rightarrow> Finite 0)
      | _ \<Rightarrow> Finite 0)"

fun isTruthy :: "val \<Rightarrow> bool" where
  "isTruthy VNil = False"
| "isTruthy (VBool v) = v"
| "isTruthy (VString v) = (v \<noteq> [])"
| "isTruthy (VInt v) = (v \<noteq> 0)"
| "isTruthy (VInt64 v) = (v \<noteq> 0)"
| "isTruthy (VFloat64 v) = (v \<noteq> Finite 0)"
| "isTruthy (VSlice v) = True"
| "isTruthy (VMap v) = True"

definition ruleViolated :: "string list \<Rightarrow> string \<Rightarrow> bool" where
  "ruleViolated errors ruleName =
     list_ex (\<lambda>err. Contains err (''rule '' @ quote @ ruleName @ quote)) errors"

definition fabs :: "float64 \<Rightarrow> float64" where
  "fabs x = (if flt x (Finite 0) then fneg x else x)"

fun collectDates :: "gomap \<Rightarrow> string list \<Rightarrow> string + string list" where
  "collectDates data [] = Inr []"
| "collectDates data (field # flds) =
     (case data field of
        None \<Rightarrow> (case collectDates data flds of Inl e \<Rightarrow> Inl e | Inr ds \<Rightarrow> Inr ([] # ds))
      | Some (VString dateStr) \<Rightarrow>
          (case collectDates data flds of Inl e \<Rightarrow> Inl e | Inr ds \<Rightarrow> Inr (dateStr # ds))
      | Some _ \<Rightarrow> Inl (''field '' @ field @ '' is not a string date''))"

fun checkDateOrder :: "string list \<Rightarrow> string list \<Rightarrow> string option" where
  "checkDateOrder (f0 # f1 # flds) (d0 # d1 # dates) =
     (if string_less d1 d0
      then Some (''date ordering violation: '' @ f0 @ '' ('' @ d0 @ '') should be <= '' @ f1 @
                 '' ('' @ d1 @ '')'')
      else checkDateOrder (f1 # flds) (d1 # dates))"
| "checkDateOrder flds dates = None"

definition validateDateOrdering :: "gomap \<Rightarrow> string list \<Rightarrow> string option" where
  "validateDateOrdering data flds =
     (if length flds < 2 then Some ''date_ordering requires at least 2 fields''
      else case collectDates data flds of
             Inl e \<Rightarrow> Some e
           | Inr dates \<Rightarrow> checkDateOrder flds dates)"

definition validateAmountRange :: "float_env \<Rightarrow> gomap \<Rightarrow> string list \<Rightarrow> string option" where
  "validateAmountRange fe data flds =
     (if length flds \<noteq> 3
      then Some ''amount_range requires exactly 3 fields: amount, min, max''
      else let amount = getNumericValue fe data (flds ! 0);
               min = getNumericValue fe data (flds ! 1);
               max = getNumericValue fe data (flds ! 2)
           in if flt amount min \<or> flt max amount
              then Some (''amount '' @ fmt_f fe amount @ '' is outside range ['' @ fmt_f fe min @
                         '', '' @ fmt_f fe max @ '']'')
              else None)"

definition validateConditionalRequired :: "gomap \<Rightarrow> string list \<Rightarrow> string option" where
  "validateConditionalRequired data flds =
     (if length flds \<noteq> 2
      then Some ''conditional_required requires exactly 2 fields: condition, required''
      else let conditionField = flds ! 0; requiredField = flds ! 1
           in case data conditionField of
                Some condVal \<Rightarrow>
                  if isTruthy condVal
                  then (case data requiredField of
                          None \<Rightarrow> Some (''field '' @ requiredField @ '' is required when '' @
                                        conditionField @ '' is present'')
                        | Some _ \<Rightarrow> None)
                  else None
              | None \<Rightarrow> None)"

definition validateMutualExclusion :: "gomap \<Rightarrow> string list \<Rightarrow> string option" where
  "validateMutualExclusion data flds =
     (case foldl (\<lambda>(presentCount, presentFields) field.
                    if data field \<noteq> None then (presentCount + 1, presentFields @ [field])
                    else (presentCount, presentFields))
                 (0 :: nat, []) flds of
        (presentCount, presentFields) \<Rightarrow>
          if 1 < presentCount
          then Some (''mutually exclusive fields present: '' @ Join presentFields '', '')
          else None)"

definition validateSumConstraint :: "float_env \<Rightarrow> gomap \<Rightarrow> string list \<Rightarrow> string option" where
  "validateSumConstraint fe data flds =
     (if length flds < 3
      then Some ''sum_constraint requires at least 3 fields: field1, field2, ..., target_sum''
      else let targetField = flds ! (length flds - 1);
               sumFields = take (length flds - 1) flds;
               sum = foldl (\<lambda>sum field. fadd fe sum (getNumericValue fe data field)) (Finite 0) sumFields;
               target = getNumericValue fe data targetField;
               tolerance = rnd fe (1 / 100)
           in if flt tolerance (fabs (fsub fe sum target))
              then Some (''sum constraint violation: sum of '' @ Join sumFields ''+'' @ '' = '' @
                         fmt_f fe sum @ '', expected '' @ fmt_f fe target)
              else None)"

text \<open>\<open>evaluateExpression\<close>: a side of a comparison constraint, over field values.\<close>

definition evaluateExpression :: "float_env \<Rightarrow> gomap \<Rightarrow> string \<Rightarrow> float64" where
  "evaluateExpression fe data expr0 =
     (let expr = TrimSpace expr0 in
      if \<not> Contains expr ''+'' \<and> \<not> Contains expr ''-'' \<and> \<not> Contains expr ''*'' \<and>
         \<not> Contains expr ''/''
      then getNumericValue fe data expr
      else if Contains expr ''+''
      then foldl (\<lambda>result part. fadd fe result (getNumericValue fe data (TrimSpace part)))
             (Finite 0) (Split expr ''+'')
      else if Contains expr ''-'' \<and> length (Split expr ''-'') = 2
      then fsub fe (getNumericValue fe data (TrimSpace (Split expr ''-'' ! 0)))
                   (getNumericValue fe data (TrimSpace (Split expr ''-'' ! 1)))
      else if Contains expr ''*'' \<and> length (Split expr ''*'') = 2
      then fmul fe (getNumericValue fe data (TrimSpace (Split expr ''*'' ! 0)))
                   (getNumericValue fe data (TrimSpace (Split expr ''*'' ! 1)))
      else getNumericValue fe data expr)"

text \<open>
  The comparison at the end of \<open>validateComparison\<close>: the violation message when the
  two sides fail the operator, nil otherwise.
\<close>

definition comparisonError ::
  "float_env \<Rightarrow> string \<Rightarrow> string \<Rightarrow> float64 \<Rightarrow> string \<Rightarrow> float64 \<Rightarrow> string option" where
  "comparisonError fe operator leftSide leftValue rightSide rightValue =
     (let violation = Some (''constraint violation: '' @ leftSide @ '' ('' @ fmt_f fe leftValue @
                            '') should be '' @ operator @ '' '' @ rightSide @ '' ('' @
                            fmt_f fe rightValue @ '')'')
      in if operator = ''>='' then (if flt leftValue rightValue then violation else None)
         else if operator = ''<='' then (if flt rightValue leftValue then violation else None)
         else if operator = ''>'' then (if fle leftValue rightValue then violation else None)
         else if operator = ''<'' then (if fle rightValue leftValue then violation else None)
         else None)"

definition validateComparison ::
  "float_env \<Rightarrow> gomap \<Rightarrow> string list \<Rightarrow> string \<Rightarrow> string option" where
  "validateComparison fe data flds constraint0 =
     (if length flds < 2 then Some ''comparison rule requires at least 2 fields''
      else
        let constraint = TrimSpace constraint0;
            operator = (if Contains constraint ''>='' then ''>=''
                        else if Contains constraint ''<='' then ''<=''
                        else if Contains constraint ''>'' then ''>''
                        else if Contains constraint ''<'' then ''<''
                        else [])
        in if operator = []
           then Some (''unsupported comparison operator in constraint: '' @ constraint)
           else
             let parts = Split constraint operator in
             if length parts \<noteq> 2 then Some (''invalid constraint format: '' @ constraint)
             else
               let leftSide = TrimSpace (parts ! 0);
                   rightSide = TrimSpace (parts ! 1);
                   leftValue = evaluateExpression fe data leftSide;
                   rightValue = evaluateExpression fe data rightSide
               in comparisonError fe operator leftSide leftValue rightSide rightValue)"

definition validateCrossFieldRule :: "float_env \<Rightarrow> gomap \<Rightarrow> CrossFieldRule \<Rightarrow> string option" where
  "validateCrossFieldRule fe data rule =
     (if Rule rule = ''date_ordering'' then validateDateOrdering data (Fields rule)
      else if Rule rule = ''amount_range'' then validateAmountRange fe data (Fields rule)
      else if Rule rule = ''comparison'' then validateComparison fe data (Fields rule) (Constraint rule)
      else if Rule rule = ''conditional_required'' then validateConditionalRequired data (Fields rule)
      else if Rule rule = ''mutual_exclusion'' then validateMutualExclusion data (Fields rule)
      else if Rule rule = ''sum_constraint'' then validateSumConstraint fe data (Fields rule)
      else Some (''unknown rule type: '' @ Rule rule))"

definition ValidateRecord :: "float_env \<Rightarrow> Validator \<Rightarrow> gomap \<Rightarrow> string list" where
  "ValidateRecord fe v data =
     foldl (\<lambda>errors rule.
              case validateCrossFieldRule fe data rule of
                Some err \<Rightarrow> errors @ [''Cross-field rule '' @ quote @ Name rule @ quote @
                                       '' failed: '' @ err]
              | None \<Rightarrow> errors)
       (case parser_Validate data of
          Some err \<Rightarrow> [''Schema validation failed: '' @ err]
        | None \<Rightarrow> [])
       (rules v)"

section \<open>Patching\<close>

text \<open>
  Go maps are references: \<open>PatchRecord\<close> makes a new map, copies the entries of the
  record into it and repairs the copy in place. The model keeps the map objects in a
  store, a list indexed by address; \<open>make\<close> appends a cell. A nil map reads as empty.
\<close>

type_synonym heap = "gomap list"

definition heap_read :: "heap \<Rightarrow> nat \<Rightarrow> gomap" where
  "heap_read h a = (if a < length h then h ! a else Map.empty)"

definition heap_make :: "heap \<Rightarrow> heap \<times> nat" where
  "heap_make h = (h @ [Map.empty], length h)"

definition heap_store :: "heap \<Rightarrow> nat \<Rightarrow> string \<Rightarrow> val \<Rightarrow> heap" where
  "heap_store h a k v = h[a := (h ! a)(k \<mapsto> v)]"

definition heap_delete :: "heap \<Rightarrow> nat \<Rightarrow> string \<Rightarrow> heap" where
  "heap_delete h a k = h[a := (h ! a)(k := None)]"

text \<open>
  \<open>patch.Params["adjustment"].(float64)\<close>: the type assertion holds for a float64 only.
\<close>

definition float_param :: "gomap \<Rightarrow> string \<Rightarrow> float64 option" where
  "float_param params k = (case params k of Some (VFloat64 f) \<Rightarrow> Some f | _ \<Rightarrow> None)"

definition adjustField :: "float_env \<Rightarrow> heap \<Rightarrow> nat \<Rightarrow> PatchRule \<Rightarrow> heap \<times> string option" where
  "adjustField fe h data patch =
     (let currentVal = getNumericValue fe (heap_read h data) (Target patch) in
      case float_param (Params patch) ''adjustment'' of
        Some adjustment \<Rightarrow>
          (heap_store h data (Target patch) (VFloat64 (fadd fe currentVal adjustment)), None)
      | None \<Rightarrow>
          (case float_param (Params patch) ''factor'' of
             Some factor \<Rightarrow>
               (heap_store h data (Target patch) (VFloat64 (fmul fe currentVal factor)), None)
           | None \<Rightarrow>
               (h, Some (''adjust_field requires '' @ quote @ ''adjustment'' @ quote @ '' or '' @
                         quote @ ''factor'' @ quote @ '' parameter''))))"

definition applyPatch :: "float_env \<Rightarrow> heap \<Rightarrow> nat \<Rightarrow> PatchRule \<Rightarrow> heap \<times> string option" where
  "applyPatch fe h data patch =
     (if Strategy patch = ''set_value'' then (heap_store h data (Target patch) (Value patch), None)
      else if Strategy patch = ''adjust_field'' then adjustField fe h data patch
      else if Strategy patch = ''remove_field'' then (heap_delete h data (Target patch), None)
      else (h, Some (''unknown patch strategy: '' @ Strategy patch)))"

text \<open>The loop of \<open>PatchRecord\<close> over the validator's rules.\<close>

fun applyPatches ::
  "float_env \<Rightarrow> heap \<Rightarrow> nat \<Rightarrow> string list \<Rightarrow> CrossFieldRule list \<Rightarrow> heap \<times> string option" where
  "applyPatches fe h patched errors [] = (h, None)"
| "applyPatches fe h patched errors (rule # rest) =
     (case Patch rule of
        None \<Rightarrow> applyPatches fe h patched errors rest
      | Some patch \<Rightarrow>
          if ruleViolated errors (Name rule)
          then (case applyPatch fe h patched patch of
                  (h', Some err) \<Rightarrow>
                    (h', Some (''failed to apply patch for rule '' @ Name rule @ '': '' @ err))
                | (h', None) \<Rightarrow> applyPatches fe h' patched errors rest)
          else applyPatches fe h patched errors rest)"

text \<open>
  \<open>PatchRecord\<close> returns the store, and the address of the patched copy or the error.
  The copying loop assigns every entry of \<open>data\<close> to the new, empty map.
\<close>

definition PatchRecord ::
  "float_env \<Rightarrow> Validator \<Rightarrow> heap \<Rightarrow> nat \<Rightarrow> string list \<Rightarrow> heap \<times> (string + nat)" where
  "PatchRecord fe v h data errors =
     (case heap_make h of (h1, patched) \<Rightarrow>
        (let h2 = list_update h1 patched (heap_read h1 data) in
         (case applyPatches fe h2 patched errors (rules v) of
            (h3, Some err) \<Rightarrow> (h3, Inl err)
          | (h3, None) \<Rightarrow> (h3, Inr patched))))"

text \<open>
  The validation step that ends \<open>Generator.generateRecord\<close> (generator.go): the record
  is validated and, when there are errors, patched; the patched copy replaces the data
  only when \<open>PatchRecord\<close> returns no error.
\<close>

record generatedRecord =
  Data :: nat
  LLMEnhanced :: bool
  ValidationErrors :: "string list"
  Patched :: bool

definition validateAndPatch ::
  "float_env \<Rightarrow> Validator \<Rightarrow> heap \<Rightarrow> generatedRecord \<Rightarrow> heap \<times> generatedRecord" where
  "validateAndPatch fe v h record =
     (let errors = ValidateRecord fe v (heap_read h (Data record)) in
      if 0 < length errors
      then let record1 = record\<lparr>ValidationErrors := errors\<rparr> in
           case PatchRecord fe v h (Data record1) errors of
             (h', Inr patched) \<Rightarrow> (h', record1\<lparr>Data := patched, Patched := True\<rparr>)
           | (h', Inl err) \<Rightarrow> (h', record1)
      else (h, record))"

section \<open>Formatting, and parameters for evaluation\<close>

text \<open>The verbs \<open>%d\<close> and \<open>%0Nd\<close> of package fmt.\<close>

definition digit_char :: "nat \<Rightarrow> char" where
  "digit_char k = char_of (48 + k)"

function decimal :: "nat \<Rightarrow> string" where
  "decimal n = (if n < 10 then [digit_char n] else decimal (n div 10) @ [digit_char (n mod 10)])"
  by pat_completeness auto
termination
  by (relation "measure id") auto

declare decimal.simps [simp del]

definition fmt_d :: "int \<Rightarrow> string" where
  "fmt_d i = (if i < 0 then ''-'' @ decimal (nat (- i)) else decimal (nat i))"

definition fmt_0d :: "nat \<Rightarrow> int \<Rightarrow> string" where
  "fmt_0d width i =
     (if i < 0
      then ''-'' @ replicate (width - 1 - length (decimal (nat (- i)))) (CHR ''0'') @ decimal (nat (- i))
      else replicate (width - length (decimal (nat i))) (CHR ''0'') @ decimal (nat i))"

text \<open>
  An instance of the float parameters, for evaluating the model on concrete inputs: every
  result is kept exact, which is what float64 gives wherever the exact result is a
  float64. It reads plain decimals, prints six decimals, raises to natural powers and
  converts out-of-range values to the smallest int64, as amd64 does.
\<close>

fun digits_value :: "string \<Rightarrow> nat \<Rightarrow> nat option" where
  "digits_value [] acc = Some acc"
| "digits_value (c # s) acc =
     (if (48 :: nat) \<le> of_char c \<and> (of_char c :: nat) \<le> 57
      then digits_value s (10 * acc + (of_char c - 48))
      else None)"

definition parse_unsigned :: "string \<Rightarrow> rat option" where
  "parse_unsigned s =
     (case Split s ''.'' of
        [ip] \<Rightarrow> (if ip = [] then None else map_option of_nat (digits_value ip 0))
      | [ip, fp] \<Rightarrow>
          (if ip = [] \<or> fp = [] then None
           else case (digits_value ip 0, digits_value fp 0) of
                  (Some i, Some f) \<Rightarrow> Some (of_nat i + of_nat f / 10 ^ length fp)
                | _ \<Rightarrow> None)
      | _ \<Rightarrow> None)"

definition parse_decimal :: "string \<Rightarrow> float64 option" where
  "parse_decimal s =
     (case s of
        c # t \<Rightarrow> if c = CHR ''-'' then map_option (\<lambda>q. Finite (- q)) (parse_unsigned t)
                 else map_option Finite (parse_unsigned s)
      | [] \<Rightarrow> None)"

fun fmt_fixed6 :: "float64 \<Rightarrow> string" where
  "fmt_fixed6 (Finite q) =
     (let n = nat (round_half_away (\<bar>q\<bar> * 1000000))
      in (if q < 0 then ''-'' else []) @ decimal (n div 1000000) @ ''.'' @
         fmt_0d 6 (int (n mod 1000000)))"
| "fmt_fixed6 PosInf = ''+Inf''"
| "fmt_fixed6 NegInf = ''-Inf''"
| "fmt_fixed6 NaN = ''NaN''"

fun exact_pow :: "float64 \<Rightarrow> float64 \<Rightarrow> float64" where
  "exact_pow (Finite a) (Finite b) =
     (if 0 \<le> b \<and> of_int \<lfloor>b\<rfloor> = b then Finite (a ^ nat \<lfloor>b\<rfloor>)
      else if of_int \<lfloor>b\<rfloor> = b \<and> a \<noteq> 0 then Finite (1 / a ^ nat (- \<lfloor>b\<rfloor>))
      else NaN)"
| "exact_pow a b = NaN"

definition exact_floats :: float_env where
  "exact_floats =
     \<lparr>rnd = Finite, rnd32 = Finite, parse_float = parse_decimal, fmt_f = fmt_fixed6, math_Pow = exact_pow,
      conv_oor = (\<lambda>x. 0x8000000000000000)\<rparr>"

section \<open>The random source\<close>

text \<open>
  Package math/rand is a parameter. A \<open>rand_source\<close> gives the state of a source seeded
  with a value and, from a state, the next draw of each kind with the state after it.
  The operations below force each draw into the range that math/rand documents
  (\<open>Intn\<close> and \<open>Int63n\<close> in \<open>[0, n)\<close>, panicking for \<open>n \<le> 0\<close>; \<open>Float64\<close> and
  \<open>Float32\<close> in \<open>[0, 1)\<close>; \<open>Read\<close> filling the whole slice), so they stand for any
  source that meets this contract.
\<close>

record 's rand_source =
  rand_seed :: "64 word \<Rightarrow> 's"
  rand_intn :: "64 word \<Rightarrow> 's \<Rightarrow> 64 word \<times> 's"
  rand_int63n :: "64 word \<Rightarrow> 's \<Rightarrow> 64 word \<times> 's"
  rand_float64 :: "'s \<Rightarrow> rat \<times> 's"
  rand_float32 :: "'s \<Rightarrow> rat \<times> 's"
  rand_read :: "nat \<Rightarrow> 's \<Rightarrow> byte list \<times> 's"

text \<open>A call fails with a panic or with a returned error.\<close>

datatype err = Panic string | Error string

definition rbind :: "err + 'a \<Rightarrow> ('a \<Rightarrow> err + 'b) \<Rightarrow> err + 'b" where
  "rbind m f = (case m of Inl e \<Rightarrow> Inl e | Inr x \<Rightarrow> f x)"

definition Intn :: "'s rand_source \<Rightarrow> 64 word \<Rightarrow> 's \<Rightarrow> err + (64 word \<times> 's)" where
  "Intn R n s =
     (if sint n \<le> 0 then Inl (Panic ''invalid argument to Intn'')
      else case rand_intn R n s of (v, s') \<Rightarrow> Inr (v mod n, s'))"

definition Int63n :: "'s rand_source \<Rightarrow> 64 word \<Rightarrow> 's \<Rightarrow> err + (64 word \<times> 's)" where
  "Int63n R n s =
     (if sint n \<le> 0 then Inl (Panic ''invalid argument to Int63n'')
      else case rand_int63n R n s of (v, s') \<Rightarrow> Inr (v mod n, s'))"

definition unit_interval :: "rat \<Rightarrow> float64" where
  "unit_interval q = (if 0 \<le> q \<and> q < 1 then Finite q else Finite 0)"

definition Float64 :: "'s rand_source \<Rightarrow> 's \<Rightarrow> float64 \<times> 's" where
  "Float64 R s = (case rand_float64 R s of (q, s') \<Rightarrow> (unit_interval q, s'))"

definition Float32 :: "'s rand_source \<Rightarrow> 's \<Rightarrow> float64 \<times> 's" where
  "Float32 R s = (case rand_float32 R s of (q, s') \<Rightarrow> (unit_interval q, s'))"

definition Read :: "'s rand_source \<Rightarrow> nat \<Rightarrow> 's \<Rightarrow> byte list \<times> 's" where
  "Read R n s = (case rand_read R n s of (bs, s') \<Rightarrow> (take n (bs @ replicate n 0), s'))"

section \<open>String generators\<close>

text \<open>
  A generator of a piece of text takes the state of the random source and returns the
  text with the state after its draws, or fails. \<open>seqR\<close> runs generators from left to
  right and concatenates their texts, as the arguments of one \<open>Sprintf\<close> call are
  evaluated.
\<close>

definition lit :: "string \<Rightarrow> 's \<Rightarrow> err + (string \<times> 's)" where
  "lit x s = Inr (x, s)"

fun seqR :: "('s \<Rightarrow> err + (string \<times> 's)) list \<Rightarrow> 's \<Rightarrow> err + (string \<times> 's)" where
  "seqR [] s = Inr ([], s)"
| "seqR (f # fs) s =
     rbind (f s) (\<lambda>(x, s'). rbind (seqR fs s') (\<lambda>(y, s''). Inr (x @ y, s'')))"

text \<open>\<open>charset[rng.Intn(len(charset))]\<close>, once and \<open>n\<close> times.\<close>

definition pick :: "'s rand_source \<Rightarrow> string \<Rightarrow> 's \<Rightarrow> err + (string \<times> 's)" where
  "pick R charset s =
     rbind (Intn R (of_nat (length charset)) s) (\<lambda>(i, s'). Inr ([charset ! unat i], s'))"

definition pickN :: "'s rand_source \<Rightarrow> string \<Rightarrow> nat \<Rightarrow> 's \<Rightarrow> err + (string \<times> 's)" where
  "pickN R charset n = seqR (replicate n (pick R charset))"

text \<open>\<open>rune('0' + rng.Intn(10))\<close>.\<close>

definition digitR :: "'s rand_source \<Rightarrow> 's \<Rightarrow> err + (string \<times> 's)" where
  "digitR R s = rbind (Intn R 10 s) (\<lambda>(i, s'). Inr ([digit_char (unat i)], s'))"

text \<open>\<open>Sprintf("%0Nd", rng.Intn(bound))\<close> and \<open>Sprintf("%d", rng.Intn(bound))\<close>.\<close>

definition padded :: "'s rand_source \<Rightarrow> nat \<Rightarrow> 64 word \<Rightarrow> 's \<Rightarrow> err + (string \<times> 's)" where
  "padded R width bound s = rbind (Intn R bound s) (\<lambda>(v, s'). Inr (fmt_0d width (sint v), s'))"

definition plain :: "'s rand_source \<Rightarrow> 64 word \<Rightarrow> 's \<Rightarrow> err + (string \<times> 's)" where
  "plain R bound s = rbind (Intn R bound s) (\<lambda>(v, s'). Inr (fmt_d (sint v), s'))"

definition upper :: string where
  "upper = ''ABCDEFGHIJKLMNOPQRSTUVWXYZ''"

definition upper_digits :: string where
  "upper_digits = ''ABCDEFGHIJKLMNOPQRSTUVWXYZ0123456789''"

definition digits_upper :: string where
  "digits_upper = ''0123456789ABCDEFGHIJKLMNOPQRSTUVWXYZ''"

definition charset62 :: string where
  "charset62 = ''abcdefghijklmnopqrstuvwxyzABCDEFGHIJKLMNOPQRSTUVWXYZ0123456789''"

text \<open>
  \<open>generateRandomString\<close>: \<open>make([]byte, length)\<close> panics for a negative length; each
  byte is a draw from the 62 letters and digits.
\<close>

definition generateRandomString :: "'s rand_source \<Rightarrow> 64 word \<Rightarrow> 's \<Rightarrow> err + (string \<times> 's)" where
  "generateRandomString R len s =
     (if sint len < 0 then Inl (Panic ''makeslice: len out of range'')
      else pickN R charset62 (unat len) s)"

definition generateMixedPattern :: "'s rand_source \<Rightarrow> string \<Rightarrow> 's \<Rightarrow> err + (string \<times> 's)" where
  "generateMixedPattern R pattern s = generateRandomString R 8 s"

text \<open>
  A string of between \<open>lo\<close> and \<open>lo + width - 1\<close> characters of a charset: the length
  is drawn first (\<open>lo + rng.Intn(width)\<close>), then the characters.
\<close>

definition ranged :: "'s rand_source \<Rightarrow> string \<Rightarrow> 64 word \<Rightarrow> 64 word \<Rightarrow> 's \<Rightarrow> err + (string \<times> 's)" where
  "ranged R charset lo width s =
     rbind (Intn R width s) (\<lambda>(k, s'). pickN R charset (unat (lo + k)) s')"

text \<open>\<open>strings.Index\<close> and \<open>strconv.Atoi\<close>.\<close>

fun Index :: "string \<Rightarrow> string \<Rightarrow> nat option" where
  "Index [] substr = (if substr = [] then Some 0 else None)"
| "Index (c # s) substr =
     (if HasPrefix (c # s) substr then Some 0 else map_option Suc (Index s substr))"

definition Atoi :: "string \<Rightarrow> 64 word option" where
  "Atoi s =
     (let neg = (s \<noteq> [] \<and> hd s = CHR ''-'');
          body = (if s \<noteq> [] \<and> (hd s = CHR ''-'' \<or> hd s = CHR ''+'') then tl s else s)
      in if body = [] then None
         else case digits_value body 0 of
                None \<Rightarrow> None
              | Some n \<Rightarrow>
                  if neg then (if n \<le> 2 ^ 63 then Some (word_of_int (- int n)) else None)
                  else (if n < 2 ^ 63 then Some (word_of_nat n) else None))"

definition extractNumericLength :: "string \<Rightarrow> 64 word" where
  "extractNumericLength pattern =
     (if Contains pattern ''{'' \<and> Contains pattern ''}''
      then (case (Index pattern ''{'', Index pattern ''}'') of
              (Some i, Some end) \<Rightarrow>
                (let start = i + 1 in
                 if start < end
                 then (case Atoi (take (end - start) (drop start pattern)) of
                         Some len \<Rightarrow> len
                       | None \<Rightarrow> 6)
                 else 6)
            | _ \<Rightarrow> 6)
      else 6)"

text \<open>
  \<open>Sprintf("%0*d", width, v)\<close> for \<open>v \<ge> 0\<close>: a negative width pads with spaces on the
  right, and fmt refuses a width beyond a million.
\<close>

definition fmt_star :: "int \<Rightarrow> int \<Rightarrow> string" where
  "fmt_star width v =
     (if 1000000 < width \<or> width < - 1000000 then ''%!(BADWIDTH)'' @ fmt_d v
      else if width < 0 then fmt_d v @ replicate (nat (- width) - length (fmt_d v)) (CHR '' '')
      else fmt_0d (nat width) v)"

definition backslash :: string where
  "backslash = [CHR 0x5C]"

text \<open>The exact-match table of \<open>generateFromPattern\<close>, in the order of its switch.\<close>

definition pattern_table :: "'s rand_source \<Rightarrow> float_env \<Rightarrow> (string \<times> ('s \<Rightarrow> err + (string \<times> 's))) list" where
  "pattern_table R fe =
     [(''^[A-Z]{2}[0-9]{6}$'', seqR [pick R upper, pick R upper, digitR R, digitR R, digitR R,
                                     digitR R, digitR R, digitR R]),
      (''^PRD[0-9]{8}$'', seqR [lit ''PRD'', padded R 8 100000000]),
      (''^PRD-[0-9]{6}$'', seqR [lit ''PRD-'', padded R 6 1000000]),
      (''^WH[0-9]{3}$'', seqR [lit ''WH'', padded R 3 1000]),
      (''^SUP[0-9]{5}$'', seqR [lit ''SUP'', padded R 5 100000]),
      (''^TXN-[0-9]{10}$'', seqR [lit ''TXN-'', padded R 10 1000000000]),
      (''^[0-9]{10}$'', padded R 10 1000000000),
      (''^[0-9]{9}$'', padded R 9 1000000000),
      (''^[0-9]{4}$'', padded R 4 10000),
      (''^[0-9]{5}$'', padded R 5 100000),
      (''^[A-Z][0-9]{2}'' @ backslash @ ''.[0-9]{1,2}$'',
         seqR [pick R upper, padded R 2 100, lit ''.'', padded R 2 100]),
      (''^[A-Z]{2}-[A-Z]{3}-[0-9]{3}$'',
         seqR [pick R upper, pick R upper, lit ''-'', pick R upper, pick R upper, pick R upper,
               lit ''-'', digitR R, digitR R, digitR R]),
      (''^PO[0-9]{8}$'', seqR [lit ''PO'', padded R 8 100000000]),
      (''^[A-Z0-9]{2,15}$'', ranged R upper_digits 2 14),
      (''^[A-Z0-9]{6,20}$'', ranged R upper_digits 6 15),
      (''^MPN[A-Z0-9]{8,15}$'', seqR [lit ''MPN'', ranged R upper_digits 8 8]),
      (''^[A-Z]{2}$'', seqR [pick R upper, pick R upper]),
      (''^[0-9]{5}(-[0-9]{4})?$'',
         (\<lambda>s. rbind (padded R 5 100000 s)
                (\<lambda>(zip5, s1). case Float32 R s1 of (f, s2) \<Rightarrow>
                   if flt f (rnd32 fe (3 / 10))
                   then rbind (padded R 4 10000 s2) (\<lambda>(zip4, s3). Inr (zip5 @ ''-'' @ zip4, s3))
                   else Inr (zip5, s2)))),
      (''^RX[0-9]{8}$'', seqR [lit ''RX'', padded R 8 100000000]),
      (''^[0-9]{5}-[0-9]{4}-[0-9]{2}$'',
         seqR [padded R 5 100000, lit ''-'', padded R 4 10000, lit ''-'', padded R 2 100]),
      (''^[A-Z]{2}[0-9]{7}$'', seqR [pick R upper, pick R upper, padded R 7 10000000]),
      (''^PA[0-9]{8}$'', seqR [lit ''PA'', padded R 8 100000000]),
      (''^INS[0-9]{6}$'', seqR [lit ''INS'', padded R 6 1000000]),
      (''^CLM[0-9]{10}$'', seqR [lit ''CLM'', padded R 10 10000000000]),
      (''^[A-Z0-9]{8,15}$'', ranged R upper_digits 8 8),
      (''^[0-9]{2}-[0-9]{7}$'', seqR [padded R 2 100, lit ''-'', padded R 7 10000000]),
      (''^[A-Z0-9]{5,10}$'', ranged R upper_digits 5 6),
      (''^[A-Z][0-9]{2}'' @ backslash @ ''.[0-9A-Z]{1,4}$'',
         (\<lambda>s. rbind (ranged R digits_upper 1 4 s)
                (\<lambda>(suffix, s1). rbind (seqR [pick R upper, pick R ''0123456789'',
                                               pick R ''0123456789'', lit ''.''] s1)
                   (\<lambda>(head, s2). Inr (head @ suffix, s2))))),
      (''^[A-Z0-9]{6,12}$'', ranged R upper_digits 6 7),
      (''^[0-9]{6}$'', padded R 6 1000000),
      (''^[A-Z0-9]{3,10}$'', ranged R upper_digits 3 8)]"

text \<open>
  \<open>generateFromPattern\<close>: the table, then the fallbacks on the structure of the pattern.
\<close>

definition generateFromPattern ::
  "'s rand_source \<Rightarrow> float_env \<Rightarrow> string \<Rightarrow> 's \<Rightarrow> err + (string \<times> 's)" where
  "generateFromPattern R fe pattern s =
     (case map_of (pattern_table R fe) pattern of
        Some gen \<Rightarrow> gen s
      | None \<Rightarrow>
          if Contains pattern ''[0-9]'' \<and> Contains pattern ''[A-Z]''
          then generateMixedPattern R pattern s
          else if Contains pattern ''[0-9]''
          then (let len = extractNumericLength pattern in
                rbind (Intn R (to_int64 fe (math_Pow fe (Finite 10) (of_int64 fe len))) s)
                  (\<lambda>(v, s'). Inr (fmt_star (sint len) (sint v), s')))
          else if Contains pattern ''[a-zA-Z]'' \<or> Contains pattern ''[A-Z]''
          then generateRandomString R 8 s
          else generateRandomString R 10 s)"

section \<open>Schema nodes and the environment of the generator\<close>

text \<open>
  What the generator takes from its surroundings beside the random source is a parameter
  too. Go leaves the order of a \<open>range\<close> over a map unspecified and \<open>time.Now\<close> reads
  the wall clock: \<open>range_order\<close> gives the order the runtime picks at an event, for the
  keys of the map, and \<open>time_Now\<close> the clock reading at an event. The events of one run
  are numbered, and the generator threads the number of the next one. The other
  fields stand for package time: the days in the five years before a time and the date
  text of a day offset into them; the nanoseconds of the year before a time and the
  RFC 3339 text of an offset into it.
\<close>

record sys_env =
  range_order :: "nat \<Rightarrow> string list \<Rightarrow> string list"
  time_Now :: "nat \<Rightarrow> int"
  date_days :: "int \<Rightarrow> 64 word"
  date_text :: "int \<Rightarrow> 64 word \<Rightarrow> string"
  datetime_span :: "int \<Rightarrow> 64 word"
  datetime_text :: "int \<Rightarrow> 64 word \<Rightarrow> string"

record 's gen_env =
  rand :: "'s rand_source"
  floats :: float_env
  sys :: sys_env

text \<open>
  \<open>schema.SchemaNode\<close>: the scalar attributes the generator reads, and the tree. A Go map
  of properties is an association list and a nil map or pointer is \<open>None\<close>.
\<close>

record node_attrs =
  Type :: string
  Required :: "string list"
  Enum :: "val list"
  Examples :: "val list"
  Format :: string
  Pattern :: string
  MinLength :: "64 word option"
  MaxLength :: "64 word option"
  Minimum :: "float64 option"
  Maximum :: "float64 option"
  MinItems :: "64 word option"
  MaxItems :: "64 word option"
  MultipleOf :: "float64 option"
  Path :: string
  OptionalProb :: float64

datatype SchemaNode =
  SchemaNode (attrs: node_attrs) (Properties: "(string \<times> SchemaNode) list option")
    (Items: "SchemaNode option")

section \<open>Format generators and scalar types\<close>

definition one_of :: "'s rand_source \<Rightarrow> string list \<Rightarrow> 's \<Rightarrow> err + (string \<times> 's)" where
  "one_of R xs s = rbind (Intn R (of_nat (length xs)) s) (\<lambda>(i, s'). Inr (xs ! unat i, s'))"

definition generateEmail :: "'s rand_source \<Rightarrow> 's \<Rightarrow> err + (string \<times> 's)" where
  "generateEmail R s =
     rbind (one_of R [''user'', ''test'', ''demo'', ''sample'', ''john'', ''jane'', ''admin''] s)
       (\<lambda>(name, s1).
          rbind (one_of R [''example.com'', ''test.org'', ''sample.net'', ''demo.co''] s1)
            (\<lambda>(domain, s2).
               rbind (Intn R 1000 s2)
                 (\<lambda>(suffix, s3). Inr (name @ fmt_d (sint suffix) @ ''@'' @ domain, s3))))"

definition hex_digit :: "nat \<Rightarrow> char" where
  "hex_digit k = ''0123456789abcdef'' ! k"

definition hex_bytes :: "byte list \<Rightarrow> string" where
  "hex_bytes bs = concat (map (\<lambda>b. [hex_digit (unat b div 16), hex_digit (unat b mod 16)]) bs)"

definition generateUUID :: "'s rand_source \<Rightarrow> 's \<Rightarrow> string \<times> 's" where
  "generateUUID R s =
     (case Read R 16 s of (b0, s') \<Rightarrow>
        let b1 = b0[6 := ((b0 ! 6) AND 0x0f) OR 0x40];
            b = b1[8 := ((b1 ! 8) AND 0x3f) OR 0x80]
        in (hex_bytes (take 4 b) @ ''-'' @ hex_bytes (take 2 (drop 4 b)) @ ''-'' @
            hex_bytes (take 2 (drop 6 b)) @ ''-'' @ hex_bytes (take 2 (drop 8 b)) @ ''-'' @
            hex_bytes (take 6 (drop 10 b)), s'))"

definition generateDate :: "'s gen_env \<Rightarrow> 's \<Rightarrow> nat \<Rightarrow> err + (string \<times> 's \<times> nat)" where
  "generateDate E s w =
     (let now = time_Now (sys E) w; days = date_days (sys E) now in
      rbind (Intn (rand E) days s)
        (\<lambda>(randomDays, s'). Inr (date_text (sys E) now randomDays, s', Suc w)))"

definition generateDateTime :: "'s gen_env \<Rightarrow> 's \<Rightarrow> nat \<Rightarrow> err + (string \<times> 's \<times> nat)" where
  "generateDateTime E s w =
     (let now = time_Now (sys E) w; duration = datetime_span (sys E) now in
      rbind (Int63n (rand E) duration s)
        (\<lambda>(randomDuration, s'). Inr (datetime_text (sys E) now randomDuration, s', Suc w)))"

definition generateURI :: "'s rand_source \<Rightarrow> 's \<Rightarrow> err + (string \<times> 's)" where
  "generateURI R s =
     rbind (one_of R [''http'', ''https''] s)
       (\<lambda>(scheme, s1).
          rbind (one_of R [''example.com'', ''test.org'', ''api.sample.net''] s1)
            (\<lambda>(host, s2).
               rbind (one_of R [''/api/v1'', ''/data'', ''/users'', ''/items''] s2)
                 (\<lambda>(path, s3).
                    rbind (Intn R 10000 s3)
                      (\<lambda>(ident, s4).
                         Inr (scheme @ ''://'' @ host @ path @ ''/'' @ fmt_d (sint ident), s4)))))"

definition generatePhone :: "'s rand_source \<Rightarrow> 's \<Rightarrow> err + (string \<times> 's)" where
  "generatePhone R s =
     rbind (Intn R 800 s)
       (\<lambda>(a, s1).
          rbind (Intn R 800 s1)
            (\<lambda>(e, s2).
               rbind (Intn R 10000 s2)
                 (\<lambda>(number, s3).
                    Inr (''('' @ fmt_0d 3 (sint (200 + a)) @ '') '' @ fmt_0d 3 (sint (200 + e)) @
                         ''-'' @ fmt_0d 4 (sint number), s3))))"

definition with_world :: "nat \<Rightarrow> err + ('a \<times> 's) \<Rightarrow> err + ('a \<times> 's \<times> nat)" where
  "with_world w r = (case r of Inl e \<Rightarrow> Inl e | Inr (x, s) \<Rightarrow> Inr (x, s, w))"

definition generateString :: "'s gen_env \<Rightarrow> node_attrs \<Rightarrow> 's \<Rightarrow> nat \<Rightarrow> err + (string \<times> 's \<times> nat)" where
  "generateString E node rng w =
     (if Format node = ''email'' then with_world w (generateEmail (rand E) rng)
      else if Format node = ''uuid'' then with_world w (Inr (generateUUID (rand E) rng))
      else if Format node = ''date'' then generateDate E rng w
      else if Format node = ''date-time'' then generateDateTime E rng w
      else if Format node = ''uri'' then with_world w (generateURI (rand E) rng)
      else if Format node = ''phone'' then with_world w (generatePhone (rand E) rng)
      else if Pattern node \<noteq> [] then with_world w (generateFromPattern (rand E) (floats E) (Pattern node) rng)
      else
        let minLen = (case MinLength node of Some n \<Rightarrow> n | None \<Rightarrow> 5);
            maxLen = (case MaxLength node of
                        Some n \<Rightarrow> if sint n < sint minLen then minLen else n
                      | None \<Rightarrow> 20)
        in with_world w
             (rbind (Intn (rand E) (maxLen - minLen + 1) rng)
                (\<lambda>(k, rng'). generateRandomString (rand E) (minLen + k) rng')))"

text \<open>Go's integer division truncates towards zero.\<close>

definition int64_div :: "64 word \<Rightarrow> 64 word \<Rightarrow> 64 word" where
  "int64_div a b = word_of_int (sgn (sint a) * sgn (sint b) * (\<bar>sint a\<bar> div \<bar>sint b\<bar>))"

definition int_bounds :: "float_env \<Rightarrow> node_attrs \<Rightarrow> 64 word \<times> 64 word" where
  "int_bounds fe node =
     (let min = (case Minimum node of Some m \<Rightarrow> to_int64 fe m | None \<Rightarrow> 0);
          max = (case Maximum node of Some m \<Rightarrow> to_int64 fe m | None \<Rightarrow> 1000)
      in (min, if sint max < sint min then min else max))"

definition apply_multiple :: "float_env \<Rightarrow> node_attrs \<Rightarrow> 64 word \<Rightarrow> 64 word" where
  "apply_multiple fe node v =
     (case MultipleOf node of
        Some m \<Rightarrow>
          (let multiple = to_int64 fe m in
           if 0 < sint multiple then int64_div v multiple * multiple else v)
      | None \<Rightarrow> v)"

definition generateInteger :: "'s gen_env \<Rightarrow> node_attrs \<Rightarrow> 's \<Rightarrow> err + (64 word \<times> 's)" where
  "generateInteger E node rng =
     (case int_bounds (floats E) node of (lo, hi) \<Rightarrow>
        rbind (Int63n (rand E) (hi - lo + 1) rng)
          (\<lambda>(k, rng'). Inr (apply_multiple (floats E) node (lo + k), rng')))"

definition generateNumber :: "'s gen_env \<Rightarrow> node_attrs \<Rightarrow> 's \<Rightarrow> float64 \<times> 's" where
  "generateNumber E node rng =
     (let fe = floats E;
          min = (case Minimum node of Some m \<Rightarrow> m | None \<Rightarrow> Finite 0);
          max0 = (case Maximum node of Some m \<Rightarrow> m | None \<Rightarrow> Finite 1000);
          max = (if flt max0 min then min else max0)
      in case Float64 (rand E) rng of (f, rng') \<Rightarrow>
           let v = fadd fe min (fmul fe f (fsub fe max min)) in
           (case MultipleOf node of
              Some m \<Rightarrow> if flt (Finite 0) m then (fmul fe (math_Round (fdiv fe v m)) m, rng') else (v, rng')
            | None \<Rightarrow> (v, rng')))"

section \<open>Arrays, objects and the dispatch on the node\<close>

text \<open>\<open>fmt.Errorf\<close> with \<open>%w\<close> prefixes a returned error; a panic passes unchanged.\<close>

definition wrap_err :: "string \<Rightarrow> err \<Rightarrow> err" where
  "wrap_err prefix e = (case e of Error m \<Rightarrow> Error (prefix @ m) | Panic m \<Rightarrow> Panic m)"

text \<open>
  The order of a \<open>range\<close> over the properties: the order picked by the runtime when it
  is an enumeration of the keys, the declaration order otherwise.
\<close>

definition iteration_order :: "sys_env \<Rightarrow> nat \<Rightarrow> string list \<Rightarrow> string list" where
  "iteration_order S w keys =
     (let order = range_order S w keys in
      if distinct order \<and> set order = set keys then order else keys)"

definition props_size :: "(string \<times> SchemaNode) list \<Rightarrow> nat" where
  "props_size ps = size_list (size_prod (\<lambda>x. 0) size) ps"

lemma map_of_props_size: "map_of ps k = Some p \<Longrightarrow> size p < props_size ps"
  by (induction ps) (auto simp: props_size_def split: if_splits)

text \<open>
  \<open>generateValue\<close>, \<open>generateArray\<close> and \<open>generateObject\<close>, with the loops of the
  last two: \<open>generateItems\<close> (the number of items left, the index),
  \<open>generateRequired\<close> and \<open>generateOptional\<close>. The random source of the caller is
  threaded through the properties of an object; every array item gets a source of its
  own, seeded from the item's path and record index 0.
\<close>

function generateValue ::
    "'s gen_env \<Rightarrow> DeterministicGenerator \<Rightarrow> SchemaNode \<Rightarrow> 's \<Rightarrow> nat \<Rightarrow> err + (val \<times> 's \<times> nat)"
  and generateArray ::
    "'s gen_env \<Rightarrow> DeterministicGenerator \<Rightarrow> SchemaNode \<Rightarrow> 's \<Rightarrow> nat \<Rightarrow>
       err + (val list \<times> 's \<times> nat)"
  and generateObject ::
    "'s gen_env \<Rightarrow> DeterministicGenerator \<Rightarrow> SchemaNode \<Rightarrow> 's \<Rightarrow> nat \<Rightarrow> err + (gomap \<times> 's \<times> nat)"
  and generateItems ::
    "'s gen_env \<Rightarrow> DeterministicGenerator \<Rightarrow> string \<Rightarrow> SchemaNode \<Rightarrow> nat \<Rightarrow> nat \<Rightarrow> nat \<Rightarrow>
       err + (val list \<times> nat)"
  and generateRequired ::
    "'s gen_env \<Rightarrow> DeterministicGenerator \<Rightarrow> (string \<times> SchemaNode) list \<Rightarrow> string list \<Rightarrow> gomap \<Rightarrow>
       's \<Rightarrow> nat \<Rightarrow> err + (gomap \<times> 's \<times> nat)"
  and generateOptional ::
    "'s gen_env \<Rightarrow> DeterministicGenerator \<Rightarrow> (string \<times> SchemaNode) list \<Rightarrow> string list \<Rightarrow>
       string list \<Rightarrow> gomap \<Rightarrow> 's \<Rightarrow> nat \<Rightarrow> err + (gomap \<times> 's \<times> nat)"
where
  "generateValue E g (SchemaNode node props items) rng w =
     (if Enum node \<noteq> []
      then (case Intn (rand E) (of_nat (length (Enum node))) rng of
              Inl e \<Rightarrow> Inl e
            | Inr (idx, rng') \<Rightarrow> Inr (Enum node ! unat idx, rng', w))
      else
        (case (if Examples node \<noteq> []
               then (case Float64 (rand E) rng of (f, rng') \<Rightarrow> (flt f (rnd (floats E) (7 / 10)), rng'))
               else (False, rng)) of
           (use_examples, rng1) \<Rightarrow>
             if use_examples
             then (case Intn (rand E) (of_nat (length (Examples node))) rng1 of
                     Inl e \<Rightarrow> Inl e
                   | Inr (idx, rng') \<Rightarrow> Inr (Examples node ! unat idx, rng', w))
             else if Type node = ''string''
             then (case generateString E node rng1 w of
                     Inl e \<Rightarrow> Inl e
                   | Inr (v, rng', w') \<Rightarrow> Inr (VString v, rng', w'))
             else if Type node = ''integer''
             then (case generateInteger E node rng1 of
                     Inl e \<Rightarrow> Inl e
                   | Inr (v, rng') \<Rightarrow> Inr (VInt64 v, rng', w))
             else if Type node = ''number''
             then (case generateNumber E node rng1 of (v, rng') \<Rightarrow> Inr (VFloat64 v, rng', w))
             else if Type node = ''boolean''
             then (case Float64 (rand E) rng1 of
                     (f, rng') \<Rightarrow> Inr (VBool (flt f (rnd (floats E) (1 / 2))), rng', w))
             else if Type node = ''array''
             then (case generateArray E g (SchemaNode node props items) rng1 w of
                     Inl e \<Rightarrow> Inl e
                   | Inr (v, rng', w') \<Rightarrow> Inr (VSlice v, rng', w'))
             else if Type node = ''object''
             then (case generateObject E g (SchemaNode node props items) rng1 w of
                     Inl e \<Rightarrow> Inl e
                   | Inr (v, rng', w') \<Rightarrow> Inr (VMap v, rng', w'))
             else if Type node = ''null'' then Inr (VNil, rng1, w)
             else (case generateString E node rng1 w of
                     Inl e \<Rightarrow> Inl e
                   | Inr (v, rng', w') \<Rightarrow> Inr (VString v, rng', w'))))"
| "generateArray E g (SchemaNode node props items) rng w =
     (case items of
        None \<Rightarrow> Inr ([], rng, w)
      | Some item \<Rightarrow>
          (let minItems = (case MinItems node of Some n \<Rightarrow> n | None \<Rightarrow> 1);
               maxItems = (case MaxItems node of
                             Some n \<Rightarrow> if sint n < sint minItems then minItems else n
                           | None \<Rightarrow> 5)
           in case Intn (rand E) (maxItems - minItems + 1) rng of
                Inl e \<Rightarrow> Inl e
              | Inr (k, rng') \<Rightarrow>
                  if sint (minItems + k) < 0 then Inl (Panic ''makeslice: len out of range'')
                  else (case generateItems E g (Path node) item (unat (minItems + k)) 0 w of
                          Inl e \<Rightarrow> Inl e
                        | Inr (result, w') \<Rightarrow> Inr (result, rng', w'))))"
| "generateObject E g (SchemaNode node props items) rng w =
     (case props of
        None \<Rightarrow> Inr (Map.empty, rng, w)
      | Some ps \<Rightarrow>
          (case generateRequired E g ps (Required node) Map.empty rng w of
             Inl e \<Rightarrow> Inl e
           | Inr (result, rng1, w1) \<Rightarrow>
               generateOptional E g ps (Required node)
                 (iteration_order (sys E) w1 (remdups (map fst ps))) result rng1 (Suc w1)))"
| "generateItems E g path item 0 i w = Inr ([], w)"
| "generateItems E g path item (Suc k) i w =
     (case generateValue E g item
             (rand_seed (rand E) (deriveSeed g (path @ ''['' @ fmt_d (int i) @ '']'') 0)) w of
        Inl e \<Rightarrow> Inl (wrap_err (''failed to generate array item '' @ fmt_d (int i) @ '': '') e)
      | Inr (v, itemRng, w') \<Rightarrow>
          (case generateItems E g path item k (Suc i) w' of
             Inl e \<Rightarrow> Inl e
           | Inr (vs, w'') \<Rightarrow> Inr (v # vs, w'')))"
| "generateRequired E g ps [] result rng w = Inr (result, rng, w)"
| "generateRequired E g ps (propName # names) result rng w =
     (case map_of ps propName of
        None \<Rightarrow> generateRequired E g ps names result rng w
      | Some prop \<Rightarrow>
          (case generateValue E g prop rng w of
             Inl e \<Rightarrow> Inl (wrap_err (''failed to generate required property '' @ propName @ '': '') e)
           | Inr (v, rng', w') \<Rightarrow> generateRequired E g ps names (result(propName \<mapsto> v)) rng' w'))"
| "generateOptional E g ps required [] result rng w = Inr (result, rng, w)"
| "generateOptional E g ps required (propName # keys) result rng w =
     (case map_of ps propName of
        None \<Rightarrow> generateOptional E g ps required keys result rng w
      | Some prop \<Rightarrow>
          if propName \<in> set required then generateOptional E g ps required keys result rng w
          else (case Float64 (rand E) rng of
                  (f, rng1) \<Rightarrow>
                    if flt f (OptionalProb (attrs prop))
                    then (case generateValue E g prop rng1 w of
                            Inl e \<Rightarrow>
                              Inl (wrap_err (''failed to generate optional property '' @ propName @ '': '') e)
                          | Inr (v, rng', w') \<Rightarrow>
                              generateOptional E g ps required keys (result(propName \<mapsto> v)) rng' w')
                    else generateOptional E g ps required keys result rng1 w))"
  by pat_completeness auto
termination
  apply (relation "inv_image (less_than <*lex*> less_than)
      (\<lambda>x. case x of
         Inl (Inl (E, g, n, rng, w)) \<Rightarrow> (size n, 2)
       | Inl (Inr (Inl (E, g, n, rng, w))) \<Rightarrow> (size n, 1)
       | Inl (Inr (Inr (E, g, n, rng, w))) \<Rightarrow> (size n, 1)
       | Inr (Inl (E, g, path, item, k, i, w)) \<Rightarrow> (size item, 3 + k)
       | Inr (Inr (Inl (E, g, ps, names, result, rng, w))) \<Rightarrow> (props_size ps, 3 + length names)
       | Inr (Inr (Inr (E, g, ps, required, keys, result, rng, w))) \<Rightarrow> (props_size ps, 3 + length keys))")
  apply (auto dest: map_of_props_size)
  apply (simp_all add: props_size_def)
  done

definition GenerateValue ::
  "'s gen_env \<Rightarrow> DeterministicGenerator \<Rightarrow> SchemaNode \<Rightarrow> 64 word \<Rightarrow> nat \<Rightarrow> err + (val \<times> nat)" where
  "GenerateValue E g node recordIndex w =
     (let seed = deriveSeed g (Path (attrs node)) recordIndex;
          rng = rand_seed (rand E) seed
      in case generateValue E g node rng w of
           Inl e \<Rightarrow> Inl e
         | Inr (v, rng', w') \<Rightarrow> Inr (v, w'))"


section \<open>A random source and an environment for evaluation\<close>

text \<open>
  A linear congruential source, standing for math/rand where the model is evaluated on
  concrete inputs, and an environment that ranges over every map in the order given by
  one function of the declaration order.
\<close>

definition lcg_next :: "64 word \<Rightarrow> 64 word" where
  "lcg_next s = word_of_nat ((unat s * 6364136223846793005 + 1442695040888963407) mod 2 ^ 64)"

fun lcg_bytes :: "nat \<Rightarrow> 64 word \<Rightarrow> byte list \<times> 64 word" where
  "lcg_bytes 0 s = ([], s)"
| "lcg_bytes (Suc n) s =
     (case lcg_bytes n (lcg_next s) of (bs, s') \<Rightarrow> (ucast (drop_bit 56 (lcg_next s)) # bs, s'))"

definition lcg_source :: "64 word rand_source" where
  "lcg_source =
     \<lparr>rand_seed = (\<lambda>seed. seed),
      rand_intn = (\<lambda>n s. (drop_bit 33 (lcg_next s), lcg_next s)),
      rand_int63n = (\<lambda>n s. (drop_bit 1 (lcg_next s), lcg_next s)),
      rand_float64 = (\<lambda>s. (of_nat (unat (drop_bit 11 (lcg_next s))) / 2 ^ 53, lcg_next s)),
      rand_float32 = (\<lambda>s. (of_nat (unat (drop_bit 40 (lcg_next s))) / 2 ^ 24, lcg_next s)),
      rand_read = lcg_bytes\<rparr>"

definition sample_env :: "(string list \<Rightarrow> string list) \<Rightarrow> 64 word gen_env" where
  "sample_env order =
     \<lparr>rand = lcg_source, floats = exact_floats,
      sys = \<lparr>range_order = (\<lambda>w. order), time_Now = (\<lambda>w. 0), date_days = (\<lambda>now. 1826),
             date_text = (\<lambda>now k. fmt_d (sint k)), datetime_span = (\<lambda>now. 31536000000000000),
             datetime_text = (\<lambda>now d. fmt_d (sint d))\<rparr>\<rparr>"

definition node_of :: "string \<Rightarrow> string \<Rightarrow> node_attrs" where
  "node_of ty path =
     \<lparr>Type = ty, Required = [], Enum = [], Examples = [], Format = [], Pattern = [],
      MinLength = None, MaxLength = None, Minimum = None, Maximum = None, MinItems = None,
      MaxItems = None, MultipleOf = None, Path = path, OptionalProb = Finite (9 / 10)\<rparr>"

definition two_optional :: SchemaNode where
  "two_optional =
     SchemaNode (node_of ''object'' [])
       (Some [(''a'', SchemaNode (node_of ''integer'' ''a'') None None),
              (''b'', SchemaNode (node_of ''integer'' ''b'') None None)])
       None"


section \<open>The comparison rule in the words of the specification\<close>

text \<open>
  A side of a constraint is a bare field reference, a sum of field references joined by
  \<open>+\<close>, or a pair of field references joined by one \<open>-\<close> or one \<open>*\<close>; anything else
  is read as a single field name. The constraint itself is split at the first of
  \<open>>=\<close>, \<open><=\<close>, \<open>>\<close>, \<open><\<close> (in this order) that occurs in it, and must have exactly
  two sides.
\<close>

datatype side_expr = FieldRef string | Sum "string list" | Difference string string | Product string string

definition parse_side :: "string \<Rightarrow> side_expr" where
  "parse_side s =
     (let e = TrimSpace s in
      if Contains e ''+'' then Sum (map TrimSpace (Split e ''+''))
      else case Split e ''-'' of
             [l, r] \<Rightarrow> Difference (TrimSpace l) (TrimSpace r)
           | _ \<Rightarrow> (case Split e ''*'' of
                     [l, r] \<Rightarrow> Product (TrimSpace l) (TrimSpace r)
                   | _ \<Rightarrow> FieldRef e))"

fun eval_side :: "float_env \<Rightarrow> gomap \<Rightarrow> side_expr \<Rightarrow> float64" where
  "eval_side fe data (FieldRef f) = getNumericValue fe data f"
| "eval_side fe data (Sum fs) = foldl (fadd fe) (Finite 0) (map (getNumericValue fe data) fs)"
| "eval_side fe data (Difference l r) = fsub fe (getNumericValue fe data l) (getNumericValue fe data r)"
| "eval_side fe data (Product l r) = fmul fe (getNumericValue fe data l) (getNumericValue fe data r)"

datatype cmp_op = GE | LE | GT | LT

fun op_text :: "cmp_op \<Rightarrow> string" where
  "op_text GE = ''>=''"
| "op_text LE = ''<=''"
| "op_text GT = ''>''"
| "op_text LT = ''<''"

definition find_operator :: "string \<Rightarrow> cmp_op option" where
  "find_operator c = find (\<lambda>op. Contains c (op_text op)) [GE, LE, GT, LT]"

definition parse_constraint :: "string \<Rightarrow> (string \<times> cmp_op \<times> string) option" where
  "parse_constraint c =
     (case find_operator c of
        None \<Rightarrow> None
      | Some op \<Rightarrow>
          (case Split c (op_text op) of
             [l, r] \<Rightarrow> Some (TrimSpace l, op, TrimSpace r)
           | _ \<Rightarrow> None))"

fun cmp_holds :: "cmp_op \<Rightarrow> float64 \<Rightarrow> float64 \<Rightarrow> bool" where
  "cmp_holds GE a b = fle b a"
| "cmp_holds LE a b = fle a b"
| "cmp_holds GT a b = flt b a"
| "cmp_holds LT a b = flt a b"

text \<open>The comparison with the operator negated: \<open><\<close> for \<open>>=\<close>, \<open>>\<close> for \<open><=\<close>, \<open><=\<close> for \<open>>\<close>, \<open>>=\<close> for \<open><\<close>.\<close>

fun cmp_opposite :: "cmp_op \<Rightarrow> float64 \<Rightarrow> float64 \<Rightarrow> bool" where
  "cmp_opposite GE a b = flt a b"
| "cmp_opposite LE a b = flt b a"
| "cmp_opposite GT a b = fle a b"
| "cmp_opposite LT a b = fle b a"

section \<open>Patching in the words of the specification\<close>

text \<open>
  A repair acts on the record as a value: \<open>set_value\<close> overwrites the target,
  \<open>adjust_field\<close> adds the adjustment to, or multiplies by the factor, the numeric value
  of the target and fails when the patch has neither, \<open>remove_field\<close> deletes the
  target. Repairs are applied in rule order, up to the first failure.
\<close>

definition repair :: "float_env \<Rightarrow> gomap \<Rightarrow> PatchRule \<Rightarrow> gomap \<times> string option" where
  "repair fe m p =
     (if Strategy p = ''set_value'' then (m(Target p \<mapsto> Value p), None)
      else if Strategy p = ''adjust_field''
      then (case float_param (Params p) ''adjustment'' of
              Some adjustment \<Rightarrow>
                (m(Target p \<mapsto> VFloat64 (fadd fe (getNumericValue fe m (Target p)) adjustment)), None)
            | None \<Rightarrow>
                (case float_param (Params p) ''factor'' of
                   Some factor \<Rightarrow>
                     (m(Target p \<mapsto> VFloat64 (fmul fe (getNumericValue fe m (Target p)) factor)), None)
                 | None \<Rightarrow>
                     (m, Some (''adjust_field requires '' @ quote @ ''adjustment'' @ quote @ '' or '' @
                               quote @ ''factor'' @ quote @ '' parameter''))))
      else if Strategy p = ''remove_field'' then (m(Target p := None), None)
      else (m, Some (''unknown patch strategy: '' @ Strategy p)))"

fun repairs :: "float_env \<Rightarrow> gomap \<Rightarrow> (string \<times> PatchRule) list \<Rightarrow> gomap \<times> string option" where
  "repairs fe m [] = (m, None)"
| "repairs fe m ((name, p) # ps) =
     (case repair fe m p of
        (m', Some err) \<Rightarrow> (m', Some (''failed to apply patch for rule '' @ name @ '': '' @ err))
      | (m', None) \<Rightarrow> repairs fe m' ps)"

text \<open>
  The specification selects the rules to repair by name: the violated rules are the rules
  whose validation reported a violation, and a rule is repaired when it declares a patch
  and its name is among the names of the violated rules.
\<close>

definition violated_names :: "float_env \<Rightarrow> Validator \<Rightarrow> gomap \<Rightarrow> string list" where
  "violated_names fe v data =
     map Name (filter (\<lambda>rule. validateCrossFieldRule fe data rule \<noteq> None) (rules v))"

fun declared_patches :: "string list \<Rightarrow> CrossFieldRule list \<Rightarrow> (string \<times> PatchRule) list" where
  "declared_patches violated [] = []"
| "declared_patches violated (rule # rest) =
     (case Patch rule of
        Some p \<Rightarrow>
          if Name rule \<in> set violated then (Name rule, p) # declared_patches violated rest
          else declared_patches violated rest
      | None \<Rightarrow> declared_patches violated rest)"

section \<open>The rules that PatchRecord repairs\<close>

text \<open>
  \<open>PatchRecord\<close> receives the error messages, not the names of the violated rules. Its
  loop takes the rules in order and repairs a rule that declares a patch when
  \<open>ruleViolated\<close> finds the rule's name, as the text \<open>rule 'NAME'\<close>, inside one of the
  messages. \<open>named_patches\<close> lists the patches that this loop selects.
\<close>

fun named_patches :: "string list \<Rightarrow> CrossFieldRule list \<Rightarrow> (string \<times> PatchRule) list" where
  "named_patches errors [] = []"
| "named_patches errors (rule # rest) =
     (case Patch rule of
        Some p \<Rightarrow>
          if ruleViolated errors (Name rule) then (Name rule, p) # named_patches errors rest
          else named_patches errors rest
      | None \<Rightarrow> named_patches errors rest)"

section \<open>Concrete records\<close>

text \<open>The blood-pressure records of the specification's comparison example.\<close>

definition bp_rule_fields :: "string list" where
  "bp_rule_fields = [''diastolic'', ''systolic'']"

definition bp_normal :: gomap where
  "bp_normal = [''systolic'' \<mapsto> VInt64 120, ''diastolic'' \<mapsto> VInt64 80]"

definition bp_swapped :: gomap where
  "bp_swapped = [''systolic'' \<mapsto> VInt64 80, ''diastolic'' \<mapsto> VInt64 120]"

text \<open>
  A validator with the specification's comparison rule, repaired by an \<open>adjust_field\<close>
  patch that carries neither an adjustment nor a factor; and a fresh record wrapper.
\<close>

definition bp_validator :: Validator where
  "bp_validator =
     \<lparr>rules = [\<lparr>Name = ''bp_order'', Description = [], Fields = bp_rule_fields,
                Rule = ''comparison'', Severity = ''error'',
                Constraint = ''diastolic < systolic'',
                Patch = Some \<lparr>Strategy = ''adjust_field'', Target = ''diastolic'', Value = VNil,
                              Params = Map.empty\<rparr>\<rparr>]\<rparr>"

definition new_record :: "nat \<Rightarrow> generatedRecord" where
  "new_record a = \<lparr>Data = a, LLMEnhanced = False, ValidationErrors = [], Patched = False\<rparr>"

text \<open>A record whose field \<open>a\<close> holds the float64 NaN.\<close>

definition nan_record :: gomap where
  "nan_record = [''a'' \<mapsto> VFloat64 NaN, ''b'' \<mapsto> VFloat64 (Finite 1)]"

text \<open>
  A validator with two rules. The rule \<open>x\<close> has the rule type \<open>rule 'b'\<close>, which the
  validator does not know, and declares no patch. The rule \<open>b\<close> is a mutual exclusion
  over no fields, which every record satisfies, and declares a patch that removes the
  field \<open>systolic\<close>.
\<close>

definition quoting_rule :: CrossFieldRule where
  "quoting_rule =
     \<lparr>Name = ''x'', Description = [], Fields = [], Rule = ''rule '' @ quote @ ''b'' @ quote,
      Severity = ''error'', Constraint = [], Patch = None\<rparr>"

definition passing_rule :: CrossFieldRule where
  "passing_rule =
     \<lparr>Name = ''b'', Description = [], Fields = [], Rule = ''mutual_exclusion'',
      Severity = ''error'', Constraint = [],
      Patch = Some \<lparr>Strategy = ''remove_field'', Target = ''systolic'', Value = VNil,
                    Params = Map.empty\<rparr>\<rparr>"

definition quoting_validator :: Validator where
  "quoting_validator = \<lparr>rules = [quoting_rule, passing_rule]\<rparr>"



section \<open>Properties of seed derivation\<close>

lemma byte_of_shift:
  "k \<le> 24 \<Longrightarrow>
   (ucast (signed_drop_bit k (r::64 word)) :: byte) = ucast (drop_bit k (ucast r :: 32 word))"
  by (rule bit_word_eqI) (auto simp: bit_simps)

lemma le_bytes32_unfold:
  "le_bytes32 (ucast (r::64 word)) =
     [ucast r, ucast (signed_drop_bit 8 r), ucast (signed_drop_bit 16 r),
      ucast (signed_drop_bit 24 r)]"
proof -
  have "[0..<4] = [0, 1, 2, 3::nat]"
    by (simp add: upt_rec)
  moreover have "(ucast (ucast r :: 32 word) :: byte) = ucast r"
    by (rule bit_word_eqI) (auto simp: bit_simps)
  ultimately show ?thesis
    by (simp add: le_bytes32_def byte_of_shift)
qed

lemma mask63: "(h::64 word) AND 0x7FFFFFFFFFFFFFFF = take_bit 63 h"
proof -
  have "(0x7FFFFFFFFFFFFFFF :: 64 word) = mask 63"
    by (simp add: mask_eq_exp_minus_1)
  then show ?thesis
    by (simp add: take_bit_eq_mask)
qed

lemma deriveSeed_ref_eq:
  "deriveSeed g path recordIndex = deriveSeed_ref (baseSeed g) path recordIndex"
  by (simp add: deriveSeed_def deriveSeed_ref_def fnv_Write_def fnv_Sum64_def fnv_New64a_def
      fnv1a_64_def le_bytes32_unfold mask63 foldl_conv_fold xor.commute del: fold_simps)

text \<open>
  C2. \<open>deriveSeed\<close> is a total function of its three inputs, with no failing input (the
  empty path and record index 0 included), and it equals the reference definition: FNV-1a
  over the path bytes followed by the little-endian four bytes of the record index, sign
  bit cleared, XORed with the base seed.
\<close>

theorem deriveSeed_refines_reference:
  "deriveSeed g path recordIndex = deriveSeed_ref (baseSeed g) path recordIndex"
  by (rule deriveSeed_ref_eq)

lemma deriveSeed_low_bits:
  "(ucast r1 :: 32 word) = ucast r2 \<Longrightarrow> deriveSeed g path r1 = deriveSeed g path r2"
  by (simp add: deriveSeed_ref_eq deriveSeed_ref_def)

lemma ucast_low_32: "(ucast (x::64 word) :: 32 word) = ucast (take_bit 32 x)"
  by (rule bit_word_eqI) (auto simp: bit_simps)

lemma ucast_mod_2p32: "(ucast ((r::64 word) mod 2 ^ 32) :: 32 word) = ucast r"
proof -
  have "r mod 2 ^ 32 = take_bit 32 r"
    by (simp only: take_bit_eq_mod)
  then show ?thesis
    using ucast_low_32 [of r] by (simp only:)
qed

lemma mod_add_multiple:
  fixes a b m M :: int
  assumes "m dvd M"
  shows "((a + b * m mod M) mod M) mod m = a mod m"
proof -
  have "((a + b * m mod M) mod M) mod m = (a + b * m mod M) mod m"
    using assms by (rule mod_mod_cancel)
  also have "\<dots> = (a mod m + (b * m mod M) mod m) mod m"
    by (simp only: mod_add_eq)
  also have "(b * m mod M) mod m = b * m mod m"
    using assms by (rule mod_mod_cancel)
  also have "b * m mod m = 0"
    by simp
  finally show ?thesis
    by simp
qed

lemma ucast_add_mult_2p32: "(ucast ((r::64 word) + k * 2 ^ 32) :: 32 word) = ucast r"
proof -
  have u: "uint (r + k * 2 ^ 32) = (uint r + uint k * 2 ^ 32 mod 2 ^ 64) mod 2 ^ 64"
    by (simp add: uint_word_ariths mod_add_right_eq)
  have "(2::int) ^ 32 dvd 2 ^ 64"
    by (rule le_imp_power_dvd) simp
  then have "uint (r + k * 2 ^ 32) mod 2 ^ 32 = uint r mod 2 ^ 32"
    unfolding u by (rule mod_add_multiple)
  then show ?thesis
    unfolding ucast_eq word_of_int_eq_iff take_bit_eq_mod by simp
qed

text \<open>
  C9. \<open>deriveSeed\<close> reads the record index through its low 32 bits only: the seed, and
  with it everything \<open>GenerateValue\<close> returns in a given environment, is the same for a
  record index and its remainder modulo \<open>2^32\<close>, and for two record indices that differ
  by a multiple of \<open>2^32\<close>.
\<close>

theorem record_index_low_32_bits:
  "deriveSeed g path (r mod 2 ^ 32) = deriveSeed g path r \<and>
   deriveSeed g path (r + k * 2 ^ 32) = deriveSeed g path r \<and>
   GenerateValue E g node (r mod 2 ^ 32) w = GenerateValue E g node r w \<and>
   GenerateValue E g node (r + k * 2 ^ 32) w = GenerateValue E g node r w"
proof -
  have a: "deriveSeed g p (r mod 2 ^ 32) = deriveSeed g p r" for p
    by (rule deriveSeed_low_bits) (rule ucast_mod_2p32)
  have b: "deriveSeed g p (r + k * 2 ^ 32) = deriveSeed g p r" for p
    by (rule deriveSeed_low_bits) (rule ucast_add_mult_2p32)
  show ?thesis
    unfolding GenerateValue_def a b by simp
qed

section \<open>Properties of the comparison rule\<close>

lemma splitAcc_absent: "\<not> Contains s sep \<Longrightarrow> splitAcc s sep cur = [cur @ s]"
  by (induction s arbitrary: cur) auto

lemma Split_absent: "\<not> Contains s sep \<Longrightarrow> Split s sep = [s]"
  by (simp add: Split_def splitAcc_absent)

lemma Split_two_Contains: "length (Split s sep) = 2 \<Longrightarrow> Contains s sep"
  using Split_absent [of s sep] by fastforce

lemma list2_cases: "length xs = 2 \<Longrightarrow> xs = [xs ! 0, xs ! 1]"
  by (cases xs; cases "tl xs"; auto)

lemma evaluateExpression_parse: "evaluateExpression fe data s = eval_side fe data (parse_side s)"
proof -
  define e where "e = TrimSpace s"
  show ?thesis
  proof (cases "Contains e ''+''")
    case True
    then show ?thesis
      by (simp add: evaluateExpression_def parse_side_def e_def [symmetric] Let_def foldl_map)
  next
    case plus: False
    show ?thesis
    proof (cases "length (Split e ''-'') = 2")
      case True
      then have c: "Contains e ''-''" by (rule Split_two_Contains)
      from True have "Split e ''-'' = [Split e ''-'' ! 0, Split e ''-'' ! 1]" by (rule list2_cases)
      then obtain l r where lr: "Split e ''-'' = [l, r]" by blast
      show ?thesis
        using plus c lr by (simp add: evaluateExpression_def parse_side_def e_def [symmetric] Let_def)
    next
      case minus: False
      have m: "(case Split e ''-'' of [l, r] \<Rightarrow> f l r | _ \<Rightarrow> d) = d" for f and d :: side_expr
        using minus by (auto split: list.splits)
      show ?thesis
      proof (cases "length (Split e ''*'') = 2")
        case True
        then have c: "Contains e ''*''" by (rule Split_two_Contains)
        from True have "Split e ''*'' = [Split e ''*'' ! 0, Split e ''*'' ! 1]" by (rule list2_cases)
        then obtain l r where lr: "Split e ''*'' = [l, r]" by blast
        show ?thesis
          using plus minus c lr 
          by (simp add: evaluateExpression_def parse_side_def e_def [symmetric] Let_def m)
      next
        case times: False
        have t: "(case Split e ''*'' of [l, r] \<Rightarrow> f l r | _ \<Rightarrow> d) = d" for f and d :: side_expr
          using times by (auto split: list.splits)
        show ?thesis
          using plus minus times
          by (simp add: evaluateExpression_def parse_side_def e_def [symmetric] Let_def m t)
      qed
    qed
  qed
qed

lemma not_NaN_order: "a \<noteq> NaN \<Longrightarrow> b \<noteq> NaN \<Longrightarrow> flt a b = (\<not> fle b a)"
  by (cases a; cases b) (auto simp: fle_def)

lemma find_operator_text:
  "find_operator c = Some op \<Longrightarrow>
   (if Contains c ''>='' then ''>=''
    else if Contains c ''<='' then ''<=''
    else if Contains c ''>'' then ''>''
    else if Contains c ''<'' then ''<'' else []) = op_text op"
  by (auto simp: find_operator_def split: if_splits)

lemma no_space_trim:
  "leading_space s = 0 \<Longrightarrow> trailing_space s = 0 \<Longrightarrow> TrimSpace s = s"
  by (simp add: TrimSpace_def TrimLeft.simps TrimRight.simps)

lemma trim_bp: "TrimSpace ''diastolic < systolic'' = ''diastolic < systolic''"
  by (rule no_space_trim) (simp_all add: leading_space_def trailing_space_def space_seqs_def HasPrefix_def HasSuffix_def)

lemma trim_diastolic: "TrimSpace ''diastolic'' = ''diastolic''"
  by (rule no_space_trim) (simp_all add: leading_space_def trailing_space_def space_seqs_def HasPrefix_def HasSuffix_def)

lemma trim_systolic: "TrimSpace ''systolic'' = ''systolic''"
  by (rule no_space_trim) (simp_all add: leading_space_def trailing_space_def space_seqs_def HasPrefix_def HasSuffix_def)

lemma trim_diastolic_sp: "TrimSpace ''diastolic '' = ''diastolic''"
  by (simp add: TrimSpace_def TrimLeft.simps TrimRight.simps leading_space_def trailing_space_def space_seqs_def HasPrefix_def HasSuffix_def)

lemma trim_sp_systolic: "TrimSpace '' systolic'' = ''systolic''"
  by (simp add: TrimSpace_def TrimLeft.simps TrimRight.simps leading_space_def trailing_space_def space_seqs_def HasPrefix_def HasSuffix_def)

lemma parse_bp:
  "parse_constraint (TrimSpace ''diastolic < systolic'') = Some (''diastolic'', LT, ''systolic'')"
  by (simp add: trim_bp parse_constraint_def find_operator_def Split_def HasPrefix_def
      trim_diastolic_sp trim_sp_systolic)

lemma side_diastolic: "parse_side ''diastolic'' = FieldRef ''diastolic''"
  by (simp add: parse_side_def trim_diastolic Split_def HasPrefix_def)

lemma side_systolic: "parse_side ''systolic'' = FieldRef ''systolic''"
  by (simp add: parse_side_def trim_systolic Split_def HasPrefix_def)

lemma validateComparison_parsed:
  assumes "2 \<le> length flds"
    and "parse_constraint (TrimSpace c) = Some (l, op, r)"
  shows "validateComparison fe data flds c =
         comparisonError fe (op_text op) l (eval_side fe data (parse_side l)) r
           (eval_side fe data (parse_side r))"
proof -
  from assms(2) obtain op' where f: "find_operator (TrimSpace c) = Some op'"
    by (auto simp: parse_constraint_def split: option.splits)
  with assms(2) obtain l0 r0 where
    s: "Split (TrimSpace c) (op_text op') = [l0, r0]" and
    e: "l = TrimSpace l0" "op = op'" "r = TrimSpace r0"
    by (auto simp: parse_constraint_def split: option.splits list.splits)
  have t: "(if Contains (TrimSpace c) ''>='' then ''>=''
    else if Contains (TrimSpace c) ''<='' then ''<=''
    else if Contains (TrimSpace c) ''>'' then ''>''
    else if Contains (TrimSpace c) ''<'' then ''<'' else []) = op_text op"
    using find_operator_text [OF f] e by simp
  have ne: "op_text op \<noteq> []"
    by (cases op) auto
  show ?thesis
    using assms(1) s e ne
    by (simp add: validateComparison_def Let_def t evaluateExpression_parse)
qed

lemma bp_swapped_violation:
  "validateComparison exact_floats bp_swapped bp_rule_fields ''diastolic < systolic'' \<noteq> None"
proof -
  have s: "getNumericValue exact_floats bp_swapped ''diastolic'' = Finite 120"
          "getNumericValue exact_floats bp_swapped ''systolic'' = Finite 80"
    by (simp_all add: bp_swapped_def getNumericValue_def of_int64_def exact_floats_def)
  have l: "2 \<le> length bp_rule_fields"
    by (simp add: bp_rule_fields_def)
  show ?thesis
    unfolding validateComparison_parsed [OF l parse_bp]
    by (simp add: side_diastolic side_systolic s comparisonError_def fle_def)
qed

lemma trim_a_lt_b: "TrimSpace ''a < b'' = ''a < b''"
  by (rule no_space_trim) (simp_all add: leading_space_def trailing_space_def space_seqs_def HasPrefix_def HasSuffix_def)

lemma trim_a: "TrimSpace ''a'' = ''a''"
  by (rule no_space_trim) (simp_all add: leading_space_def trailing_space_def space_seqs_def HasPrefix_def HasSuffix_def)

lemma trim_b: "TrimSpace ''b'' = ''b''"
  by (rule no_space_trim) (simp_all add: leading_space_def trailing_space_def space_seqs_def HasPrefix_def HasSuffix_def)

lemma trim_a_sp: "TrimSpace ''a '' = ''a''"
  by (simp add: TrimSpace_def TrimLeft.simps TrimRight.simps leading_space_def trailing_space_def space_seqs_def HasPrefix_def HasSuffix_def)

lemma trim_sp_b: "TrimSpace '' b'' = ''b''"
  by (simp add: TrimSpace_def TrimLeft.simps TrimRight.simps leading_space_def trailing_space_def space_seqs_def HasPrefix_def HasSuffix_def)

lemma parse_a_lt_b:
  "parse_constraint (TrimSpace ''a < b'') = Some (''a'', LT, ''b'')"
  by (simp add: trim_a_lt_b parse_constraint_def find_operator_def Split_def HasPrefix_def
      trim_a_sp trim_sp_b)

lemma side_a: "parse_side ''a'' = FieldRef ''a''"
  by (simp add: parse_side_def trim_a Split_def HasPrefix_def)

lemma side_b: "parse_side ''b'' = FieldRef ''b''"
  by (simp add: parse_side_def trim_b Split_def HasPrefix_def)

lemma NaN_unordered: "\<not> flt NaN b" "\<not> flt a NaN" "\<not> fle NaN b" "\<not> fle a NaN"
  by (cases a; cases b; simp add: fle_def)+

text \<open>
  C6, as the code has it. For a comparison rule that lists at least two fields and whose
  trimmed constraint has exactly two sides around the first operator found in the order
  \<open>>=\<close>, \<open><=\<close>, \<open>>\<close>, \<open><\<close>, each side is evaluated as a field reference, a sum, a
  difference or a product of field values, and \<open>validateComparison\<close> reports a violation
  exactly when the comparison with the negated operator holds between the two values.
  When neither side is NaN this is exactly when the comparison is false. When a side is
  NaN the comparison is false and no violation is reported.
\<close>

theorem validateComparison_reports_opposite:
  assumes "2 \<le> length flds"
    and "parse_constraint (TrimSpace c) = Some (l, op, r)"
  shows "((validateComparison fe data flds c \<noteq> None) =
            cmp_opposite op (eval_side fe data (parse_side l)) (eval_side fe data (parse_side r))) \<and>
         (eval_side fe data (parse_side l) \<noteq> NaN \<and> eval_side fe data (parse_side r) \<noteq> NaN \<longrightarrow>
            (validateComparison fe data flds c = None) =
            cmp_holds op (eval_side fe data (parse_side l)) (eval_side fe data (parse_side r))) \<and>
         (eval_side fe data (parse_side l) = NaN \<or> eval_side fe data (parse_side r) = NaN \<longrightarrow>
            validateComparison fe data flds c = None \<and>
            \<not> cmp_holds op (eval_side fe data (parse_side l)) (eval_side fe data (parse_side r)))"
  unfolding validateComparison_parsed [OF assms(1,2)]
  by (cases op) (auto simp: comparisonError_def Let_def not_NaN_order NaN_unordered)

theorem validateComparison_reports_opposite_witness:
  "validateComparison exact_floats bp_normal bp_rule_fields ''diastolic < systolic'' = None \<and>
   validateComparison exact_floats bp_swapped bp_rule_fields ''diastolic < systolic'' \<noteq> None \<and>
   validateComparison exact_floats nan_record [''a'', ''b''] ''a < b'' = None"
proof -
  have n: "getNumericValue exact_floats bp_normal ''diastolic'' = Finite 80"
          "getNumericValue exact_floats bp_normal ''systolic'' = Finite 120"
    by (simp_all add: bp_normal_def getNumericValue_def of_int64_def exact_floats_def)
  have s: "getNumericValue exact_floats bp_swapped ''diastolic'' = Finite 120"
          "getNumericValue exact_floats bp_swapped ''systolic'' = Finite 80"
    by (simp_all add: bp_swapped_def getNumericValue_def of_int64_def exact_floats_def)
  have a: "getNumericValue exact_floats nan_record ''a'' = NaN"
          "getNumericValue exact_floats nan_record ''b'' = Finite 1"
    by (simp_all add: nan_record_def getNumericValue_def)
  have l: "2 \<le> length bp_rule_fields"
    by (simp add: bp_rule_fields_def)
  have l2: "2 \<le> length [''a'', ''b'']"
    by simp
  show ?thesis
    using validateComparison_reports_opposite [OF l parse_bp, of exact_floats bp_normal]
      validateComparison_reports_opposite [OF l parse_bp, of exact_floats bp_swapped]
      validateComparison_reports_opposite [OF l2 parse_a_lt_b, of exact_floats nan_record]
    by (simp add: side_diastolic side_systolic side_a side_b n s a fle_def)
qed

text \<open>
  The comparison \<open>a < b\<close> on a record whose field \<open>a\<close> is NaN and whose field \<open>b\<close> is 1:
  the comparison is false, and \<open>validateComparison\<close> reports no violation.
\<close>

theorem validateComparison_NaN_unreported:
  "evaluateExpression exact_floats nan_record ''a'' = NaN \<and>
   evaluateExpression exact_floats nan_record ''b'' = Finite 1 \<and>
   \<not> cmp_holds LT NaN (Finite 1) \<and>
   validateComparison exact_floats nan_record [''a'', ''b''] ''a < b'' = None"
proof -
  have n: "getNumericValue exact_floats nan_record ''a'' = NaN"
          "getNumericValue exact_floats nan_record ''b'' = Finite 1"
    by (simp_all add: nan_record_def getNumericValue_def)
  have e: "evaluateExpression exact_floats nan_record ''a'' = NaN"
          "evaluateExpression exact_floats nan_record ''b'' = Finite 1"
    by (simp_all add: evaluateExpression_parse side_a side_b n)
  have l: "2 \<le> length [''a'', ''b'']"
    by simp
  have v: "validateComparison exact_floats nan_record [''a'', ''b''] ''a < b'' = None"
    unfolding validateComparison_parsed [OF l parse_a_lt_b]
    by (simp add: side_a side_b n comparisonError_def fle_def)
  show ?thesis
    using e v by simp
qed

section \<open>Properties of the presence rules\<close>

lemma count_present:
  "foldl (\<lambda>(presentCount, presentFields) field.
             if data field \<noteq> None then (presentCount + 1, presentFields @ [field])
             else (presentCount, presentFields)) (n, fs) flds =
   (n + length (filter (\<lambda>f. f \<in> dom data) flds), fs @ filter (\<lambda>f. f \<in> dom data) flds)"
  by (induction flds arbitrary: n fs) (auto simp: dom_def)

text \<open>
  C10. The rule engine tests presence by key existence. \<open>mutual_exclusion\<close> reports a
  violation exactly when at least two entries of its field list are keys of the record,
  so two listed fields that are both set to nil violate it. \<open>conditional_required\<close>
  reports a violation exactly when the condition field has a truthy value and the
  required field is not a key of the record: a required field set to nil satisfies the
  rule, and a condition set to nil never triggers it.
\<close>

theorem presence_is_key_existence:
  "(validateMutualExclusion data flds \<noteq> None) = (2 \<le> length (filter (\<lambda>f. f \<in> dom data) flds)) \<and>
   validateMutualExclusion (data(a \<mapsto> VNil, b \<mapsto> VNil)) [a, b] \<noteq> None \<and>
   (validateConditionalRequired data [c, r] \<noteq> None) =
     ((\<exists>v. data c = Some v \<and> isTruthy v) \<and> r \<notin> dom data) \<and>
   validateConditionalRequired (data(r \<mapsto> VNil)) [c, r] = None \<and>
   validateConditionalRequired (data(c \<mapsto> VNil)) [c, r] = None"
proof -
  have 1: "(validateMutualExclusion data flds \<noteq> None) =
           (2 \<le> length (filter (\<lambda>f. f \<in> dom data) flds))" for data flds
    unfolding validateMutualExclusion_def count_present by auto
  have 2: "validateMutualExclusion (data(a \<mapsto> VNil, b \<mapsto> VNil)) [a, b] \<noteq> None"
    unfolding 1 by simp
  have 3: "(validateConditionalRequired data [c, r] \<noteq> None) =
     ((\<exists>v. data c = Some v \<and> isTruthy v) \<and> r \<notin> dom data)" for data
    by (auto simp: validateConditionalRequired_def Let_def dom_def split: option.splits)
  have 4: "validateConditionalRequired (data(r \<mapsto> VNil)) [c, r] = None"
    using 3 [of "data(r \<mapsto> VNil)"] by simp
  have 5: "validateConditionalRequired (data(c \<mapsto> VNil)) [c, r] = None"
    using 3 [of "data(c \<mapsto> VNil)"] by auto
  show ?thesis
    using 1 2 3 4 5 by blast
qed

theorem presence_is_key_existence_witness:
  "validateMutualExclusion [''fieldA'' \<mapsto> VNil, ''fieldB'' \<mapsto> VNil] [''fieldA'', ''fieldB''] \<noteq> None \<and>
   validateConditionalRequired [''flag'' \<mapsto> VBool True, ''note'' \<mapsto> VNil] [''flag'', ''note''] = None \<and>
   validateConditionalRequired [''flag'' \<mapsto> VNil] [''flag'', ''note''] = None \<and>
   validateConditionalRequired [''flag'' \<mapsto> VBool True] [''flag'', ''note''] \<noteq> None"
  using presence_is_key_existence [of "Map.empty(''flag'' \<mapsto> VBool True)" "[]" "''fieldA''" "''fieldB''"
      "''flag''" "''note''"]
    presence_is_key_existence [of "Map.empty" "[]" "''fieldA''" "''fieldB''" "''flag''" "''note''"]
  by simp

section \<open>Properties of patching\<close>

lemma applyPatch_repair:
  "applyPatch fe (h @ [m]) (length h) p = (h @ [fst (repair fe m p)], snd (repair fe m p))"
  by (simp add: applyPatch_def repair_def adjustField_def heap_store_def heap_delete_def
      heap_read_def Let_def split: option.splits)

lemma applyPatches_repairs:
  "applyPatches fe (h @ [m]) (length h) errors rs =
     (h @ [fst (repairs fe m (named_patches errors rs))],
      snd (repairs fe m (named_patches errors rs)))"
proof (induction rs arbitrary: m)
  case Nil
  then show ?case by simp
next
  case (Cons rule rest)
  show ?case
  proof (cases "Patch rule")
    case None
    then show ?thesis using Cons.IH by simp
  next
    case (Some p)
    show ?thesis
    proof (cases "ruleViolated errors (Name rule)")
      case False
      then show ?thesis using Some Cons.IH by simp
    next
      case True
      obtain m' e where r: "repair fe m p = (m', e)" by (cases "repair fe m p")
      show ?thesis
        using Some True r Cons.IH [of m']
        by (cases e) (simp_all add: applyPatch_repair)
    qed
  qed
qed

lemma PatchRecord_repairs:
  "PatchRecord fe v h data errors =
     (h @ [fst (repairs fe (heap_read h data) (named_patches errors (rules v)))],
      case snd (repairs fe (heap_read h data) (named_patches errors (rules v))) of
        None \<Rightarrow> Inr (length h)
      | Some err \<Rightarrow> Inl err)"
proof -
  have r: "heap_read (h @ [Map.empty]) data = heap_read h data"
    by (auto simp: heap_read_def nth_append fun_eq_iff less_Suc_eq)
  show ?thesis
    by (simp add: PatchRecord_def heap_make_def r applyPatches_repairs split: option.splits)
qed

lemma HasPrefix_Contains: "HasPrefix s x \<Longrightarrow> Contains s x"
  by (cases s) (auto simp: HasPrefix_def)

lemma Contains_prefix: "Contains (x @ b) x"
  by (rule HasPrefix_Contains) (simp add: HasPrefix_def)

lemma Contains_append: "Contains s x \<Longrightarrow> Contains (a @ s) x"
  by (induction a) auto

lemma foldl_errors:
  "set (foldl (\<lambda>errors rule. case f rule of Some err \<Rightarrow> errors @ [g rule err] | None \<Rightarrow> errors) acc rs) =
   set acc \<union> {g rule err | rule err. rule \<in> set rs \<and> f rule = Some err}"
  by (induction rs arbitrary: acc) (auto split: option.splits)

lemma violated_rule_found:
  assumes "rule \<in> set (rules v)" "validateCrossFieldRule fe data rule \<noteq> None"
  shows "ruleViolated (ValidateRecord fe v data) (Name rule)"
proof -
  from assms(2) obtain err where e: "validateCrossFieldRule fe data rule = Some err" by auto
  let ?msg = "''Cross-field rule '' @ quote @ Name rule @ quote @ '' failed: '' @ err"
  have "?msg \<in> set (ValidateRecord fe v data)"
    unfolding ValidateRecord_def foldl_errors using assms(1) e by blast
  moreover have "Contains (''Cross-field '' @ (''rule '' @ quote @ Name rule @ quote) @ '' failed: '' @ err)
                   (''rule '' @ quote @ Name rule @ quote)"
    by (rule Contains_append) (rule Contains_prefix)
  then have "Contains ?msg (''rule '' @ quote @ Name rule @ quote)" by simp
  ultimately show ?thesis
    unfolding ruleViolated_def list_ex_iff by blast
qed

text \<open>
  \<open>PatchRecord\<close> leaves every map of the store as it was and adds one map: the copy of
  the record with the repairs applied, in rule order, of the rules that declare a patch
  and that \<open>ruleViolated\<close> finds in the error list; every rule that failed validation is
  found there. When a repair fails, as an \<open>adjust_field\<close> patch with
  neither a float adjustment nor a float factor does, \<open>PatchRecord\<close> returns the error,
  and the caller keeps the record's original map, with its original entries, and does
  not mark the record patched; when no repair fails the caller takes the copy and marks
  the record patched.
\<close>

lemma PatchRecord_copy:
  "PatchRecord fe v h data errors =
     (h @ [fst (repairs fe (heap_read h data) (named_patches errors (rules v)))],
      case snd (repairs fe (heap_read h data) (named_patches errors (rules v))) of
        None \<Rightarrow> Inr (length h)
      | Some err \<Rightarrow> Inl err) \<and>
   (rule \<in> set (rules v) \<and> validateCrossFieldRule fe (heap_read h (Data record)) rule \<noteq> None \<longrightarrow>
      ruleViolated (ValidateRecord fe v (heap_read h (Data record))) (Name rule)) \<and>
   (Strategy p = ''adjust_field'' \<and> float_param (Params p) ''adjustment'' = None \<and>
    float_param (Params p) ''factor'' = None \<longrightarrow>
      fst (repair fe m p) = m \<and> snd (repair fe m p) \<noteq> None) \<and>
   (Data record < length h \<and> ValidateRecord fe v (heap_read h (Data record)) \<noteq> [] \<and>
    snd (repairs fe (heap_read h (Data record))
           (named_patches (ValidateRecord fe v (heap_read h (Data record))) (rules v))) \<noteq> None \<longrightarrow>
      (\<exists>err. snd (PatchRecord fe v h (Data record) (ValidateRecord fe v (heap_read h (Data record)))) = Inl err) \<and>
      Data (snd (validateAndPatch fe v h record)) = Data record \<and>
      Patched (snd (validateAndPatch fe v h record)) = Patched record \<and>
      heap_read (fst (validateAndPatch fe v h record)) (Data record) = heap_read h (Data record)) \<and>
   (Data record < length h \<and> ValidateRecord fe v (heap_read h (Data record)) \<noteq> [] \<and>
    snd (repairs fe (heap_read h (Data record))
           (named_patches (ValidateRecord fe v (heap_read h (Data record))) (rules v))) = None \<longrightarrow>
      Data (snd (validateAndPatch fe v h record)) = length h \<and>
      Patched (snd (validateAndPatch fe v h record)) \<and>
      heap_read (fst (validateAndPatch fe v h record)) (length h) =
        fst (repairs fe (heap_read h (Data record))
               (named_patches (ValidateRecord fe v (heap_read h (Data record))) (rules v))) \<and>
      heap_read (fst (validateAndPatch fe v h record)) (Data record) = heap_read h (Data record))"
proof -
  have keep: "a < length h \<Longrightarrow> heap_read (h @ [x]) a = heap_read h a" for a x
    by (simp add: heap_read_def nth_append)
  have new: "heap_read (h @ [x]) (length h) = x" for x
    by (simp add: heap_read_def)
  have adj: "Strategy p = ''adjust_field'' \<and> float_param (Params p) ''adjustment'' = None \<and>
    float_param (Params p) ''factor'' = None \<longrightarrow>
      fst (repair fe m p) = m \<and> snd (repair fe m p) \<noteq> None"
    by (simp add: repair_def)
  show ?thesis
    using violated_rule_found [of rule v fe "heap_read h (Data record)"] adj
    by (auto simp: PatchRecord_repairs validateAndPatch_def Let_def keep new split: option.splits)
qed

lemma PatchRecord_failure_keeps_record:
  "(\<exists>err. snd (PatchRecord exact_floats bp_validator [bp_swapped] 0
               (ValidateRecord exact_floats bp_validator bp_swapped)) = Inl err) \<and>
   Data (snd (validateAndPatch exact_floats bp_validator [bp_swapped] (new_record 0))) = 0 \<and>
   Patched (snd (validateAndPatch exact_floats bp_validator [bp_swapped] (new_record 0))) = False \<and>
   heap_read (fst (validateAndPatch exact_floats bp_validator [bp_swapped] (new_record 0))) 0 = bp_swapped"
proof -
  let ?rule = "hd (rules bp_validator)"
  let ?patch = "\<lparr>Strategy = ''adjust_field'', Target = ''diastolic'', Value = VNil, Params = Map.empty\<rparr>"
  have r0: "heap_read [bp_swapped] 0 = bp_swapped"
    by (simp add: heap_read_def)
  have viol: "validateCrossFieldRule exact_floats bp_swapped ?rule \<noteq> None"
    using bp_swapped_violation by (simp add: bp_validator_def validateCrossFieldRule_def)
  have found: "ruleViolated (ValidateRecord exact_floats bp_validator bp_swapped) ''bp_order''"
    using violated_rule_found [of ?rule bp_validator exact_floats bp_swapped] viol
    by (simp add: bp_validator_def)
  have errs: "ValidateRecord exact_floats bp_validator bp_swapped \<noteq> []"
    using found by (auto simp: ruleViolated_def)
  have sel: "named_patches (ValidateRecord exact_floats bp_validator bp_swapped) (rules bp_validator) =
             [(''bp_order'', ?patch)]"
    using found by (simp add: bp_validator_def)
  have fails: "snd (repairs exact_floats bp_swapped [(''bp_order'', ?patch)]) \<noteq> None"
    by (simp add: repair_def float_param_def)
  have d: "Data (new_record 0) = 0"
    by (simp add: new_record_def)
  have hyp: "Data (new_record 0) < length [bp_swapped] \<and>
      ValidateRecord exact_floats bp_validator (heap_read [bp_swapped] (Data (new_record 0))) \<noteq> [] \<and>
      snd (repairs exact_floats (heap_read [bp_swapped] (Data (new_record 0)))
             (named_patches
                (ValidateRecord exact_floats bp_validator (heap_read [bp_swapped] (Data (new_record 0))))
                (rules bp_validator))) \<noteq> None"
  proof (intro conjI)
    show "Data (new_record 0) < length [bp_swapped]"
      by (simp add: d)
    show "ValidateRecord exact_floats bp_validator (heap_read [bp_swapped] (Data (new_record 0))) \<noteq> []"
      unfolding d r0 by (rule errs)
    show "snd (repairs exact_floats (heap_read [bp_swapped] (Data (new_record 0)))
             (named_patches
                (ValidateRecord exact_floats bp_validator (heap_read [bp_swapped] (Data (new_record 0))))
                (rules bp_validator))) \<noteq> None"
      unfolding d r0 sel by (rule fails)
  qed
  have "(\<exists>err. snd (PatchRecord exact_floats bp_validator [bp_swapped] (Data (new_record 0))
                 (ValidateRecord exact_floats bp_validator (heap_read [bp_swapped] (Data (new_record 0))))) =
               Inl err) \<and>
      Data (snd (validateAndPatch exact_floats bp_validator [bp_swapped] (new_record 0))) =
        Data (new_record 0) \<and>
      Patched (snd (validateAndPatch exact_floats bp_validator [bp_swapped] (new_record 0))) =
        Patched (new_record 0) \<and>
      heap_read (fst (validateAndPatch exact_floats bp_validator [bp_swapped] (new_record 0)))
        (Data (new_record 0)) = heap_read [bp_swapped] (Data (new_record 0))"
    using PatchRecord_copy [of exact_floats bp_validator "[bp_swapped]" 0
        "ValidateRecord exact_floats bp_validator bp_swapped" ?rule "new_record 0" ?patch bp_swapped]
      hyp
    by blast
  then show ?thesis
    unfolding d r0 by (simp add: new_record_def)
qed

lemma violated_names_found:
  assumes "n \<in> set (violated_names fe v data)"
  shows "ruleViolated (ValidateRecord fe v data) n"
proof -
  from assms obtain rule where
    "rule \<in> set (rules v)" "validateCrossFieldRule fe data rule \<noteq> None" "n = Name rule"
    by (auto simp: violated_names_def)
  then show ?thesis
    using violated_rule_found [of rule v fe data] by simp
qed

text \<open>Every rule that the specification repairs is repaired by \<open>PatchRecord\<close>.\<close>

lemma declared_patches_named:
  "set (declared_patches (violated_names fe v data) rs) \<subseteq>
   set (named_patches (ValidateRecord fe v data) rs)"
  by (induction rs) (auto split: option.splits dest: violated_names_found)

lemma passing_rule_passes: "validateCrossFieldRule fe data passing_rule = None"
  by (simp add: validateCrossFieldRule_def passing_rule_def validateMutualExclusion_def)

lemma quoting_rule_fails:
  "validateCrossFieldRule fe data quoting_rule =
     Some (''unknown rule type: rule '' @ quote @ ''b'' @ quote)"
  by (simp add: validateCrossFieldRule_def quoting_rule_def quote_def)

lemma quoting_errors:
  "ValidateRecord fe quoting_validator data =
     [''Cross-field rule '' @ quote @ ''x'' @ quote @ '' failed: unknown rule type: rule '' @
      quote @ ''b'' @ quote]"
  by (simp add: ValidateRecord_def quoting_validator_def passing_rule_passes quoting_rule_fails
      parser_Validate_def)
    (simp add: quoting_rule_def)

lemma quoting_names_b:
  "ruleViolated [''Cross-field rule '' @ quote @ ''x'' @ quote @
                 '' failed: unknown rule type: rule '' @ quote @ ''b'' @ quote] ''b''"
  by (simp add: ruleViolated_def quote_def HasPrefix_def)

lemma quoting_violated: "violated_names fe quoting_validator data = [''x'']"
  by (simp add: violated_names_def quoting_validator_def passing_rule_passes quoting_rule_fails)
    (simp add: quoting_rule_def)

lemma quoting_named:
  "named_patches (ValidateRecord fe quoting_validator data) (rules quoting_validator) =
     [(''b'', \<lparr>Strategy = ''remove_field'', Target = ''systolic'', Value = VNil,
              Params = Map.empty\<rparr>)]"
proof -
  have "ruleViolated (ValidateRecord fe quoting_validator data) ''b''"
    unfolding quoting_errors by (rule quoting_names_b)
  then show ?thesis
    by (simp add: quoting_validator_def quoting_rule_def passing_rule_def)
qed

text \<open>
  C7, where the code departs from it. The validator has the rules \<open>x\<close> and \<open>b\<close>; the
  record is \<open>{systolic: 120, diastolic: 80}\<close>. The rule \<open>b\<close> passes validation; the only
  error message is the one of the rule \<open>x\<close>, so \<open>x\<close> is the only violated rule, and no
  rule that declares a patch is violated: the specification repairs nothing. The
  message of \<open>x\<close> ends with the text \<open>rule 'b'\<close>, so \<open>PatchRecord\<close> applies the patch of
  \<open>b\<close>: the copy has lost the field \<open>systolic\<close>, which the record holds, and the record is
  marked patched.
\<close>

theorem PatchRecord_repairs_passing_rule:
  "validateCrossFieldRule exact_floats bp_normal passing_rule = None \<and>
   ValidateRecord exact_floats quoting_validator bp_normal =
     [''Cross-field rule '' @ quote @ ''x'' @ quote @ '' failed: unknown rule type: rule '' @
      quote @ ''b'' @ quote] \<and>
   violated_names exact_floats quoting_validator bp_normal = [''x''] \<and>
   declared_patches (violated_names exact_floats quoting_validator bp_normal)
     (rules quoting_validator) = [] \<and>
   Data (snd (validateAndPatch exact_floats quoting_validator [bp_normal] (new_record 0))) = 1 \<and>
   Patched (snd (validateAndPatch exact_floats quoting_validator [bp_normal] (new_record 0))) \<and>
   heap_read (fst (validateAndPatch exact_floats quoting_validator [bp_normal] (new_record 0))) 1 =
     [''diastolic'' \<mapsto> VInt64 80] \<and>
   bp_normal ''systolic'' = Some (VInt64 120)"
proof -
  let ?p = "\<lparr>Strategy = ''remove_field'', Target = ''systolic'', Value = VNil,
              Params = Map.empty\<rparr>"
  have r: "fst (repairs exact_floats bp_normal [(''b'', ?p)]) = [''diastolic'' \<mapsto> VInt64 80]"
          "snd (repairs exact_floats bp_normal [(''b'', ?p)]) = None"
    by (auto simp: repair_def bp_normal_def fun_eq_iff)
  have rd: "heap_read [bp_normal] 0 = bp_normal"
    by (simp add: heap_read_def)
  have p: "PatchRecord exact_floats quoting_validator [bp_normal] 0
             (ValidateRecord exact_floats quoting_validator bp_normal) =
           ([bp_normal, [''diastolic'' \<mapsto> VInt64 80]], Inr 1)"
    unfolding PatchRecord_repairs rd quoting_named r by simp
  have v: "validateAndPatch exact_floats quoting_validator [bp_normal] (new_record 0) =
           ([bp_normal, [''diastolic'' \<mapsto> VInt64 80]],
            (new_record 0)\<lparr>ValidationErrors := ValidateRecord exact_floats quoting_validator bp_normal,
                            Data := 1, Patched := True\<rparr>)"
    unfolding validateAndPatch_def Let_def
    by (simp add: new_record_def rd p) (simp add: quoting_errors)
  have d: "declared_patches [''x''] (rules quoting_validator) = []"
    by (simp add: quoting_validator_def quoting_rule_def passing_rule_def)
  show ?thesis
    unfolding v
    by (simp add: passing_rule_passes quoting_errors quoting_violated d)
      (simp add: heap_read_def bp_normal_def)
qed

section \<open>Properties of the integer generator\<close>















section \<open>Properties of the string generators\<close>

lemma lcg_Intn:
  "Intn lcg_source n s =
     (if sint n \<le> 0 then Inl (Panic ''invalid argument to Intn'')
      else Inr (drop_bit 33 (lcg_next s) mod n, lcg_next s))"
  by (simp add: Intn_def lcg_source_def)

lemma lcg_Int63n:
  "Int63n lcg_source n s =
     (if sint n \<le> 0 then Inl (Panic ''invalid argument to Int63n'')
      else Inr (drop_bit 1 (lcg_next s) mod n, lcg_next s))"
  by (simp add: Int63n_def lcg_source_def)

lemma lcg_Float64:
  "Float64 lcg_source s =
     (unit_interval (of_nat (unat (drop_bit 11 (lcg_next s))) / 2 ^ 53), lcg_next s)"
  by (simp add: Float64_def lcg_source_def)

text \<open>
  C4. A string node without format and pattern that sets \<open>minLength\<close> to 25 and has no
  \<open>maxLength\<close>: the maximum stays at its default 20, is not raised to the minimum, and
  the length is drawn with the bound \<open>20 - 25 + 1\<close>, which makes \<open>Intn\<close> panic, for every
  random source and in every environment.
\<close>

theorem generateString_minLength_panics:
  "generateString E ((node_of ''string'' path)\<lparr>MinLength := Some 25\<rparr>) rng w =
     Inl (Panic ''invalid argument to Intn'')"
  by (simp add: generateString_def node_of_def Intn_def rbind_def with_world_def)

lemma alphabetic_pattern_not_in_table:
  "map_of (pattern_table lcg_source exact_floats) ''^[a-zA-Z]+$'' = None"
  by (simp add: pattern_table_def backslash_def)

lemma seed_name_7: "deriveSeed \<lparr>baseSeed = 12345\<rparr> ''name'' 7 = 2771320180776263720"
  by (simp add: deriveSeed_def fnv_Write_def fnv_New64a_def fnv_Sum64_def offset64_def
      prime64_def bytes_of_def)

lemma pickN_0: "pickN R cs 0 s = Inr ([], s)"
  by (simp add: pickN_def)

lemma pickN_step:
  "pick R cs s = Inr (x, s') \<Longrightarrow> pickN R cs n s' = Inr (y, s'') \<Longrightarrow>
   pickN R cs (Suc n) s = Inr (x @ y, s'')"
  by (simp add: pickN_def rbind_def)

lemma nat_8: "(8 :: nat) = Suc (Suc (Suc (Suc (Suc (Suc (Suc (Suc 0)))))))"
  by simp

lemma name_pick_0: "pick lcg_source charset62 2771320180776263720 = Inr (''Q'', 494783126035644503)"
  by (simp add: pick_def lcg_Intn lcg_next_def rbind_def charset62_def)

lemma name_pick_1: "pick lcg_source charset62 494783126035644503 = Inr (''H'', 10701384266832345498)"
  by (simp add: pick_def lcg_Intn lcg_next_def rbind_def charset62_def)

lemma name_pick_2: "pick lcg_source charset62 10701384266832345498 = Inr (''7'', 296720407576102753)"
  by (simp add: pick_def lcg_Intn lcg_next_def rbind_def charset62_def)

lemma name_pick_3: "pick lcg_source charset62 296720407576102753 = Inr (''P'', 3721658635948829788)"
  by (simp add: pick_def lcg_Intn lcg_next_def rbind_def charset62_def)

lemma name_pick_4: "pick lcg_source charset62 3721658635948829788 = Inr (''S'', 4640976346753364347)"
  by (simp add: pick_def lcg_Intn lcg_next_def rbind_def charset62_def)

lemma name_pick_5: "pick lcg_source charset62 4640976346753364347 = Inr (''Y'', 1243999313607227630)"
  by (simp add: pick_def lcg_Intn lcg_next_def rbind_def charset62_def)

lemma name_pick_6: "pick lcg_source charset62 1243999313607227630 = Inr (''X'', 13654775250408690981)"
  by (simp add: pick_def lcg_Intn lcg_next_def rbind_def charset62_def)

lemma name_pick_7: "pick lcg_source charset62 13654775250408690981 = Inr (''7'', 7559598627001095120)"
  by (simp add: pick_def lcg_Intn lcg_next_def rbind_def charset62_def)

lemma name_picks:
  "pickN lcg_source charset62 8 2771320180776263720 = Inr (''QH7PSYX7'', 7559598627001095120)"
  unfolding nat_8 using pickN_step [OF name_pick_0 pickN_step [OF name_pick_1 pickN_step [OF name_pick_2 pickN_step [OF name_pick_3 pickN_step [OF name_pick_4 pickN_step [OF name_pick_5 pickN_step [OF name_pick_6 pickN_step [OF name_pick_7 pickN_0]]]]]]]] by simp

text \<open>
  C8, where the code departs from it. The pattern \<open>^[a-zA-Z]+$\<close> is not in the table and
  contains the letter class \<open>[a-zA-Z]\<close> and no digit class. \<open>generateFromPattern\<close> answers
  with \<open>generateRandomString(8)\<close>, whose characters are drawn from the 62 letters and
  digits: from the source seeded for the path \<open>name\<close>, record 7 and base seed 12345 the
  result is \<open>QH7PSYX7\<close>, which holds two digits.
\<close>

theorem alphabetic_pattern_yields_digits:
  "generateFromPattern lcg_source exact_floats ''^[a-zA-Z]+$''
     (rand_seed lcg_source (deriveSeed \<lparr>baseSeed = 12345\<rparr> ''name'' 7)) =
     Inr (''QH7PSYX7'', 7559598627001095120)"
proof -
  have s: "rand_seed lcg_source (deriveSeed \<lparr>baseSeed = 12345\<rparr> ''name'' 7) = 2771320180776263720"
    by (simp add: lcg_source_def seed_name_7)
  have c: "\<not> Contains ''^[a-zA-Z]+$'' ''[0-9]''" "Contains ''^[a-zA-Z]+$'' ''[a-zA-Z]''"
    by (simp_all add: HasPrefix_def)
  have "generateFromPattern lcg_source exact_floats ''^[a-zA-Z]+$'' 2771320180776263720 =
          generateRandomString lcg_source 8 2771320180776263720"
    by (simp only: generateFromPattern_def alphabetic_pattern_not_in_table option.case c
        if_False if_True simp_thms)
  then show ?thesis
    unfolding s by (simp add: generateRandomString_def name_picks)
qed

section \<open>Properties of objects and arrays\<close>

lemma integer_node_value:
  assumes "Int63n (rand E) 1001 s = Inr (v, s')"
  shows "generateValue E g (SchemaNode (node_of ''integer'' path) None None) s w =
           Inr (VInt64 v, s', w)"
  using assms
  by (simp add: node_of_def generateInteger_def int_bounds_def apply_multiple_def rbind_def)

lemma two_optional_order:
  "remdups (map fst [(''a'', x), (''b'', y)]) = [''a'', ''b'']"
  by simp

lemma two_optional_draws:
  assumes "Float64 (rand E) s0 = (f0, s1)" "flt f0 (Finite (9 / 10))"
    and "Int63n (rand E) 1001 s1 = Inr (v, s2)"
    and "Float64 (rand E) s2 = (f2, s3)" "\<not> flt f2 (Finite (9 / 10))"
    and "iteration_order (sys E) w [''a'', ''b''] = [p, q]"
    and "p = ''a'' \<and> q = ''b'' \<or> p = ''b'' \<and> q = ''a''"
  shows "generateValue E g two_optional s0 w = Inr (VMap [p \<mapsto> VInt64 v], s3, Suc w)"
proof -
  have i: "generateValue E g (SchemaNode (node_of ''integer'' path) None None) s1 (Suc w) =
           Inr (VInt64 v, s2, Suc w)" for path
    using assms(3) by (rule integer_node_value)
  have o: "OptionalProb (node_of ty path) = Finite (9 / 10)" for ty path
    by (simp add: node_of_def)
  have t: "Enum (node_of ty path) = []" "Examples (node_of ty path) = []"
    "Type (node_of ty path) = ty" "Required (node_of ty path) = []" for ty path
    by (simp_all add: node_of_def)
  have obj: "generateObject E g two_optional s0 w = Inr ([p \<mapsto> VInt64 v], s3, Suc w)"
    using assms(7)
    by (auto simp: two_optional_def t o i assms(1,2,4,5,6) simp del: generateValue.simps)
  show ?thesis
    using obj by (simp add: two_optional_def t)
qed

lemma order_id: "iteration_order (sys (sample_env id)) w [''a'', ''b''] = [''a'', ''b'']"
  by (simp add: iteration_order_def sample_env_def)

lemma order_rev: "iteration_order (sys (sample_env rev)) w [''a'', ''b''] = [''b'', ''a'']"
  by (simp add: iteration_order_def sample_env_def insert_commute)

lemma rand_sample_env: "rand (sample_env order) = lcg_source"
  by (simp add: sample_env_def)

lemma seed_root_7: "deriveSeed \<lparr>baseSeed = 12345\<rparr> [] 7 = 7869321708915453563"
  by (simp add: deriveSeed_def fnv_Write_def fnv_New64a_def fnv_Sum64_def offset64_def
      prime64_def bytes_of_def)

lemma root_draw_0:
  "Float64 lcg_source 7869321708915453563 =
     (Finite (3044774816621367 / 4503599627370496), 12471397648881119726)"
  by (simp add: lcg_Float64 lcg_next_def unit_interval_def)

lemma root_draw_1: "Int63n lcg_source 1001 12471397648881119726 = Inr (357, 4870134128462109221)"
  by (simp add: lcg_Int63n lcg_next_def)

lemma root_draw_2:
  "Float64 lcg_source 4870134128462109221 =
     (Finite (4362055545468879 / 4503599627370496), 17866979514240529616)"
  by (simp add: lcg_Float64 lcg_next_def unit_interval_def)

lemma root_value:
  assumes "iteration_order (sys (sample_env order)) w [''a'', ''b''] = [p, q]"
    and "p = ''a'' \<and> q = ''b'' \<or> p = ''b'' \<and> q = ''a''"
  shows "generateValue (sample_env order) g two_optional 7869321708915453563 w =
           Inr (VMap [p \<mapsto> VInt64 357], 17866979514240529616, Suc w)"
proof -
  have c0: "flt (Finite (3044774816621367 / 4503599627370496)) (Finite (9 / 10))"
    by (simp add: field_simps)
  have c2: "\<not> flt (Finite (4362055545468879 / 4503599627370496)) (Finite (9 / 10))"
    by (simp add: field_simps)
  have d: "Float64 (rand (sample_env order)) 7869321708915453563 =
             (Finite (3044774816621367 / 4503599627370496), 12471397648881119726)"
    "Int63n (rand (sample_env order)) 1001 12471397648881119726 = Inr (357, 4870134128462109221)"
    "Float64 (rand (sample_env order)) 4870134128462109221 =
             (Finite (4362055545468879 / 4503599627370496), 17866979514240529616)"
    unfolding rand_sample_env by (rule root_draw_0 root_draw_1 root_draw_2)+
  show ?thesis
    by (rule two_optional_draws [OF d(1) c0 d(2) d(3) c2 assms])
qed

text \<open>
  C1, where the code departs from it. The object has the optional integer properties
  \<open>a\<close> and \<open>b\<close>, no format and no date. \<open>generateObject\<close> ranges over the map of the
  properties in the order the runtime picks, and draws from one random source as it goes:
  with the same base seed 12345, the same node and the same record index 7, the order
  \<open>a\<close>, \<open>b\<close> yields \<open>{a: 357}\<close> and the order \<open>b\<close>, \<open>a\<close> yields \<open>{b: 357}\<close>.
\<close>

theorem GenerateValue_follows_map_order:
  "GenerateValue (sample_env id) \<lparr>baseSeed = 12345\<rparr> two_optional 7 0 =
     Inr (VMap [''a'' \<mapsto> VInt64 357], 1) \<and>
   GenerateValue (sample_env rev) \<lparr>baseSeed = 12345\<rparr> two_optional 7 0 =
     Inr (VMap [''b'' \<mapsto> VInt64 357], 1) \<and>
   GenerateValue (sample_env id) \<lparr>baseSeed = 12345\<rparr> two_optional 7 0 \<noteq>
     GenerateValue (sample_env rev) \<lparr>baseSeed = 12345\<rparr> two_optional 7 0"
proof -
  have p: "Path (attrs two_optional) = []"
    by (simp add: two_optional_def node_of_def)
  have s: "rand_seed (rand (sample_env order)) x = x" for order x
    by (simp add: sample_env_def lcg_source_def)
  have a: "GenerateValue (sample_env id) \<lparr>baseSeed = 12345\<rparr> two_optional 7 0 =
     Inr (VMap [''a'' \<mapsto> VInt64 357], 1)"
    unfolding GenerateValue_def Let_def p seed_root_7 s
    by (simp add: root_value [OF order_id])
  have b: "GenerateValue (sample_env rev) \<lparr>baseSeed = 12345\<rparr> two_optional 7 0 =
     Inr (VMap [''b'' \<mapsto> VInt64 357], 1)"
    unfolding GenerateValue_def Let_def p seed_root_7 s
    by (simp add: root_value [OF order_rev])
  have "([''a'' \<mapsto> VInt64 357] :: gomap) ''a'' \<noteq> [''b'' \<mapsto> VInt64 357] ''a''"
    by simp
  then have "([''a'' \<mapsto> VInt64 357] :: gomap) \<noteq> [''b'' \<mapsto> VInt64 357]"
    by metis
  then show ?thesis
    unfolding a b by simp
qed

















end
